theory Spec2Isabelle
  imports Complex_Main
begin

section \<open>Strings and the text-diff library\<close>

text \<open>
  The embedding follows \<^verbatim>\<open>src/utils/textComparison.js\<close>, in the variant whose
  \<^verbatim>\<open>performLineMutualComparison\<close> calls \<^verbatim>\<open>createOptimalAlignment\<close>.

  A JavaScript string is a \<^typ>\<open>string\<close>: a list of code units, here the 8-bit range
  (Latin-1) of the UTF-16 code units; \<^verbatim>\<open>s.length\<close> is \<^term>\<open>length s\<close> and the empty
  string is the only falsy one.

  The scores are quotients of two string lengths, compared with each other and with the
  literal \<^verbatim>\<open>0.8\<close>. They are modelled as exact rationals. The double nearest to
  \<^verbatim>\<open>0.8\<close> is the correctly rounded quotient of \<^verbatim>\<open>4/5\<close>, rounding is monotone, and
  two different quotients of lengths below \<^verbatim>\<open>2^26\<close> round to different doubles, so for
  such lengths every comparison of the source has the outcome of the exact comparison.
\<close>

text \<open>
  One entry of the edit script that \<^verbatim>\<open>diff_match_patch.diff_main\<close> returns: the pair
  \<^verbatim>\<open>[operation, text]\<close> with operation \<^verbatim>\<open>0\<close> (equal), \<^verbatim>\<open>1\<close> (insert) or \<^verbatim>\<open>-1\<close> (delete).
  The library is not part of the repository: \<^verbatim>\<open>diff_main\<close> is a parameter of every
  function that calls it, taken as a function of its two arguments (its time limit is
  left out). It is called on strings only, where it does not throw.
\<close>

type_synonym diff = "int \<times> string"

type_synonym differ = "string \<Rightarrow> string \<Rightarrow> diff list"

text \<open>\<^verbatim>\<open>\s\<close> and \<^verbatim>\<open>trim\<close> use the same class: white space and line terminators.\<close>

definition isWhiteSpace :: "char \<Rightarrow> bool" where
  "isWhiteSpace c = (of_char c \<in> {9, 10, 11, 12, 13, 32, 160 :: nat})"

definition trim :: "string \<Rightarrow> string" where
  "trim s = rev (dropWhile isWhiteSpace (rev (dropWhile isWhiteSpace s)))"

text \<open>\<^verbatim>\<open>replace(/\s+/g, ' ')\<close>: every maximal run of white space becomes one space.\<close>

function collapseWhiteSpace :: "string \<Rightarrow> string" where
  "collapseWhiteSpace [] = []"
| "collapseWhiteSpace (c # cs) =
     (if isWhiteSpace c then CHR '' '' # collapseWhiteSpace (dropWhile isWhiteSpace cs)
      else c # collapseWhiteSpace cs)"
  by pat_completeness auto
termination
  by (relation "measure length") (auto simp: length_dropWhile_le less_Suc_eq_le)

definition toLowerCase_char :: "char \<Rightarrow> char" where
  "toLowerCase_char c =
     (let n = (of_char c :: nat) in
      if (65 \<le> n \<and> n \<le> 90) \<or> (192 \<le> n \<and> n \<le> 222 \<and> n \<noteq> 215)
      then char_of (n + 32) else c)"

definition toLowerCase :: "string \<Rightarrow> string" where
  "toLowerCase s = map toLowerCase_char s"

text \<open>The local \<^verbatim>\<open>normalize\<close> of \<^verbatim>\<open>areTextsEqual\<close>.\<close>

definition normalize_text :: "string \<Rightarrow> string" where
  "normalize_text s = toLowerCase (collapseWhiteSpace (trim s))"

definition areTextsEqual :: "string \<Rightarrow> string \<Rightarrow> bool" where
  "areTextsEqual text1 text2 = (normalize_text text1 = normalize_text text2)"

text \<open>The \<^verbatim>\<open>forEach\<close> of \<^verbatim>\<open>getTextSimilarity\<close>: the lengths of the equal spans, summed.\<close>

fun unchangedLength :: "diff list \<Rightarrow> nat \<Rightarrow> nat" where
  "unchangedLength [] acc = acc"
| "unchangedLength (d # ds) acc =
     unchangedLength ds (if fst d = 0 then acc + length (snd d) else acc)"

definition getTextSimilarity :: "differ \<Rightarrow> string \<Rightarrow> string \<Rightarrow> rat" where
  "getTextSimilarity diff_main text1 text2 =
     (if text1 = [] \<and> text2 = [] then 1
      else if text1 = [] \<or> text2 = [] then 0
      else
        let diffs = diff_main text1 text2;
            totalLength = max (length text1) (length text2);
            unchanged = unchangedLength diffs 0
        in if totalLength > 0 then of_nat unchanged / of_nat totalLength else 0)"

section \<open>Document lines\<close>

text \<open>
  What the comparison reads of a DOM element: for a table, the \<^verbatim>\<open>textContent\<close> of the
  \<^verbatim>\<open>td, th\<close> cells below each of its \<^verbatim>\<open>tr\<close> rows, in document order; for an image, the
  \<^verbatim>\<open>src\<close> and \<^verbatim>\<open>alt\<close> properties (\<^term>\<open>None\<close> where the property is undefined, as on
  a \<^verbatim>\<open>figure\<close>) and the \<^verbatim>\<open>src\<close> attribute (\<^term>\<open>None\<close> for \<^verbatim>\<open>null\<close>).
\<close>

record element =
  rows :: "string list list"
  src :: "string option"
  src_attribute :: "string option"
  alt :: "string option"

text \<open>
  An entry of the array that \<^verbatim>\<open>extractDocumentLines\<close> builds; its \<^verbatim>\<open>text\<close> field is
  \<open>text'\<close> here. Its \<^verbatim>\<open>element\<close> is the node the tree walker returned, never
  \<^verbatim>\<open>null\<close>.
\<close>

record line =
  element :: element
  text' :: string
  html :: string
  index :: nat
  tagName :: string
  isEmpty :: bool
  isTable :: bool
  isImage :: bool
  outerHTML :: string

section \<open>The lookahead matcher\<close>

text \<open>
  \<^verbatim>\<open>findBestMatch\<close> returns \<^verbatim>\<open>{ score: bestScore, index: bestIndex }\<close>, here the pair
  \<open>(score, index)\<close>; the index starts at \<^verbatim>\<open>-1\<close>. The loop function is the
  \<^verbatim>\<open>forEach\<close>, with the index of the candidate as a counter.
\<close>

fun findBestMatch_loop ::
  "differ \<Rightarrow> line \<Rightarrow> line list \<Rightarrow> int \<Rightarrow> rat \<times> int \<Rightarrow> rat \<times> int" where
  "findBestMatch_loop diff_main targetLine [] i best = best"
| "findBestMatch_loop diff_main targetLine (candidate # candidates) i (bestScore, bestIndex) =
     (let similarity = getTextSimilarity diff_main (text' targetLine) (text' candidate)
      in findBestMatch_loop diff_main targetLine candidates (i + 1)
           (if similarity > bestScore then (similarity, i) else (bestScore, bestIndex)))"

definition findBestMatch :: "differ \<Rightarrow> line \<Rightarrow> line list \<Rightarrow> rat \<times> int" where
  "findBestMatch diff_main targetLine candidateLines =
     findBestMatch_loop diff_main targetLine candidateLines 0 (0, -1)"

section \<open>The block aligner\<close>

datatype alignment_type = Match | Addition | Deletion

record decision =
  leftIndex :: "nat option"
  rightIndex :: "nat option"
  type :: alignment_type

text \<open>\<^verbatim>\<open>xs[i]\<close> is \<^verbatim>\<open>undefined\<close> out of range; a line is an object and always truthy.\<close>

definition item :: "'a list \<Rightarrow> nat \<Rightarrow> 'a option" where
  "item xs i = (if i < length xs then Some (xs ! i) else None)"

text \<open>\<^verbatim>\<open>xs.slice(a, b)\<close> for indices that are not negative.\<close>

definition slice :: "'a list \<Rightarrow> nat \<Rightarrow> nat \<Rightarrow> 'a list" where
  "slice xs a b = take (b - a) (drop a xs)"

text \<open>
  The \<^verbatim>\<open>else\<close> arm of the direct-match test: both lookaheads, then the decision pushed and
  the new cursors.
\<close>

definition lookahead_step ::
  "differ \<Rightarrow> line list \<Rightarrow> line list \<Rightarrow> line \<Rightarrow> line \<Rightarrow> nat \<Rightarrow> nat \<Rightarrow> decision \<times> nat \<times> nat" where
  "lookahead_step diff_main leftLines rightLines leftLine rightLine i j =
     (let leftLookahead = findBestMatch diff_main leftLine (slice rightLines (j + 1) (j + 4));
          rightLookahead = findBestMatch diff_main rightLine (slice leftLines (i + 1) (i + 4))
      in if fst leftLookahead > fst rightLookahead \<and> fst leftLookahead > 8 / 10
         then (\<lparr>leftIndex = None, rightIndex = Some j, type = Addition\<rparr>, i, j + 1)
         else if fst rightLookahead > 8 / 10
         then (\<lparr>leftIndex = Some i, rightIndex = None, type = Deletion\<rparr>, i + 1, j)
         else (\<lparr>leftIndex = Some i, rightIndex = Some j, type = Match\<rparr>, i + 1, j + 1))"

text \<open>One turn of the \<^verbatim>\<open>while\<close> loop; \<^term>\<open>None\<close> is the \<^verbatim>\<open>break\<close>.\<close>

definition align_step ::
  "differ \<Rightarrow> line list \<Rightarrow> line list \<Rightarrow> nat \<Rightarrow> nat \<Rightarrow> (decision \<times> nat \<times> nat) option" where
  "align_step diff_main leftLines rightLines i j =
     (case (item leftLines i, item rightLines j) of
        (None, None) \<Rightarrow> None
      | (Some leftLine, Some rightLine) \<Rightarrow>
          (let similarity = getTextSimilarity diff_main (text' leftLine) (text' rightLine)
           in if similarity > 8 / 10 \<or> areTextsEqual (text' leftLine) (text' rightLine)
              then Some (\<lparr>leftIndex = Some i, rightIndex = Some j, type = Match\<rparr>, i + 1, j + 1)
              else Some (lookahead_step diff_main leftLines rightLines leftLine rightLine i j))
      | (Some leftLine, None) \<Rightarrow>
          Some (\<lparr>leftIndex = Some i, rightIndex = None, type = Deletion\<rparr>, i + 1, j)
      | (None, Some rightLine) \<Rightarrow>
          Some (\<lparr>leftIndex = None, rightIndex = Some j, type = Addition\<rparr>, i, j + 1))"

lemma align_step_advances:
  assumes "align_step diff_main leftLines rightLines i j = Some (d, i', j')"
  shows "(length leftLines - i') + (length rightLines - j')
           < (length leftLines - i) + (length rightLines - j)"
  using assms
  by (auto simp: align_step_def lookahead_step_def item_def Let_def
           split: if_splits option.splits)

function align_loop ::
  "differ \<Rightarrow> line list \<Rightarrow> line list \<Rightarrow> nat \<Rightarrow> nat \<Rightarrow> decision list \<Rightarrow> decision list" where
  "align_loop diff_main leftLines rightLines i j alignment =
     (if i < length leftLines \<or> j < length rightLines
      then (case align_step diff_main leftLines rightLines i j of
              None \<Rightarrow> alignment
            | Some (d, i', j') \<Rightarrow>
                align_loop diff_main leftLines rightLines i' j' (alignment @ [d]))
      else alignment)"
  by pat_completeness auto
termination
  by (relation "measure (\<lambda>(diff_main, leftLines, rightLines, i, j, alignment).
        (length leftLines - i) + (length rightLines - j))")
     (auto dest: align_step_advances)

declare align_loop.simps [simp del]

definition createOptimalAlignment :: "differ \<Rightarrow> line list \<Rightarrow> line list \<Rightarrow> decision list" where
  "createOptimalAlignment diff_main leftLines rightLines =
     align_loop diff_main leftLines rightLines 0 0 []"

section \<open>A sample differ and the contract of the text-diff library\<close>

text \<open>
  A small differ for evaluating the functions on concrete inputs. It has the first steps
  of \<^verbatim>\<open>diff_main\<close>: the shortcut for equal texts, then the common prefix and the common
  suffix as equal spans; what lies between them is reported as one deletion and one
  insertion. On the inputs evaluated below, where the differing middles share no
  character, the library returns the same script.
\<close>

fun commonPrefix :: "string \<Rightarrow> string \<Rightarrow> string" where
  "commonPrefix (x # xs) (y # ys) = (if x = y then x # commonPrefix xs ys else [])"
| "commonPrefix xs ys = []"

definition commonSuffix :: "string \<Rightarrow> string \<Rightarrow> string" where
  "commonSuffix a b = rev (commonPrefix (rev a) (rev b))"

definition sample_diff_main :: differ where
  "sample_diff_main text1 text2 =
     (if text1 = text2 then (if text1 = [] then [] else [(0, text1)])
      else
        let p = commonPrefix text1 text2;
            rest1 = drop (length p) text1;
            rest2 = drop (length p) text2;
            s = commonSuffix rest1 rest2;
            middle1 = take (length rest1 - length s) rest1;
            middle2 = take (length rest2 - length s) rest2
        in filter (\<lambda>d. snd d \<noteq> []) [(0, p), (- 1, middle1), (1, middle2), (0, s)])"

text \<open>
  The contract the specification gives for the text-diff oracle: the texts of the equal
  and deleted spans, concatenated, are the first string, and those of the equal and
  inserted spans are the second.
\<close>

definition reconstructs :: "diff list \<Rightarrow> string \<Rightarrow> string \<Rightarrow> bool" where
  "reconstructs script a b =
     (concat (map snd (filter (\<lambda>d. fst d = 0 \<or> fst d = - 1) script)) = a \<and>
      concat (map snd (filter (\<lambda>d. fst d = 0 \<or> fst d = 1) script)) = b)"

text \<open>An edit script without insertions and deletions.\<close>

definition onlyEqual :: "diff list \<Rightarrow> bool" where
  "onlyEqual script = list_all (\<lambda>d. fst d = 0) script"

text \<open>The lengths of the equal spans of an edit script, summed.\<close>

definition equalLength :: "diff list \<Rightarrow> nat" where
  "equalLength script = sum_list (map (\<lambda>d. length (snd d)) (filter (\<lambda>d. fst d = 0) script))"

text \<open>The sample differ keeps the contract.\<close>

lemma commonPrefix_left: "take (length (commonPrefix a b)) a = commonPrefix a b"
  by (induction a b rule: commonPrefix.induct) auto

lemma commonPrefix_right: "take (length (commonPrefix a b)) b = commonPrefix a b"
  by (induction a b rule: commonPrefix.induct) auto

lemma commonPrefix_split_left: "commonPrefix a b @ drop (length (commonPrefix a b)) a = a"
  using append_take_drop_id [of "length (commonPrefix a b)" a] by (simp add: commonPrefix_left)

lemma commonPrefix_split_right: "commonPrefix a b @ drop (length (commonPrefix a b)) b = b"
  using append_take_drop_id [of "length (commonPrefix a b)" b] by (simp add: commonPrefix_right)

lemma commonSuffix_left: "drop (length a - length (commonSuffix a b)) a = commonSuffix a b"
proof -
  have "commonSuffix a b = rev (take (length (commonPrefix (rev a) (rev b))) (rev a))"
    by (simp add: commonSuffix_def commonPrefix_left)
  then show ?thesis
    by (simp add: rev_take commonSuffix_def)
qed

lemma commonSuffix_right: "drop (length b - length (commonSuffix a b)) b = commonSuffix a b"
proof -
  have "commonSuffix a b = rev (take (length (commonPrefix (rev a) (rev b))) (rev b))"
    by (simp add: commonSuffix_def commonPrefix_right)
  then show ?thesis
    by (simp add: rev_take commonSuffix_def)
qed

lemma commonSuffix_split_left: "take (length a - length (commonSuffix a b)) a @ commonSuffix a b = a"
  using append_take_drop_id [of "length a - length (commonSuffix a b)" a]
  by (simp add: commonSuffix_left)

lemma commonSuffix_split_right: "take (length b - length (commonSuffix a b)) b @ commonSuffix a b = b"
  using append_take_drop_id [of "length b - length (commonSuffix a b)" b]
  by (simp add: commonSuffix_right)

lemma concat_without_empty:
  "concat (map snd (filter P (filter (\<lambda>d. snd d \<noteq> []) ds))) = concat (map snd (filter P ds))"
  by (induction ds) auto

lemma sample_diff_main_reconstructs: "reconstructs (sample_diff_main a b) a b"
proof (cases "a = b")
  case True
  then show ?thesis
    by (simp add: sample_diff_main_def reconstructs_def)
next
  case False
  define p where "p = commonPrefix a b"
  define s where "s = commonSuffix (drop (length p) a) (drop (length p) b)"
  define m1 where "m1 = take (length (drop (length p) a) - length s) (drop (length p) a)"
  define m2 where "m2 = take (length (drop (length p) b) - length s) (drop (length p) b)"
  have script: "sample_diff_main a b
      = filter (\<lambda>d. snd d \<noteq> []) [(0, p), (- 1, m1), (1, m2), (0, s)]"
    using False by (simp add: sample_diff_main_def Let_def p_def s_def m1_def m2_def)
  have a: "p @ m1 @ s = a"
    unfolding m1_def s_def p_def commonSuffix_split_left by (rule commonPrefix_split_left)
  have b: "p @ m2 @ s = b"
    unfolding m2_def s_def p_def commonSuffix_split_right by (rule commonPrefix_split_right)
  show ?thesis
    unfolding script reconstructs_def concat_without_empty using a b by simp
qed

text \<open>
  Modelled from the spec: the text-diff oracle, that is the library behind
  \<^verbatim>\<open>diff_main\<close>, which is not part of the repository. The specification fixes it only
  by its contract: for all strings \<open>a\<close> and \<open>b\<close> the edit script it returns reconstructs
  \<open>a\<close> and \<open>b\<close>. An oracle is any differ with that property; \<open>diff_of\<close> is the differ
  of an oracle.
\<close>

typedef diffOracle = "{f :: differ. \<forall>a b. reconstructs (f a b) a b}"
  morphisms diff_of Abs_diffOracle
proof
  show "(\<lambda>a b. [(- 1, a), (1, b)]) \<in> {f :: differ. \<forall>a b. reconstructs (f a b) a b}"
    by (simp add: reconstructs_def)
qed

setup_lifting type_definition_diffOracle

text \<open>The sample differ as an oracle.\<close>

lift_definition sample_oracle :: diffOracle is sample_diff_main
  by (rule sample_diff_main_reconstructs)

text \<open>
  The oracle that reports every comparison as one deletion of the first string and one
  insertion of the second.
\<close>

lift_definition replacing_oracle :: diffOracle is "\<lambda>a b. [(- 1, a), (1, b)]"
  by (simp add: reconstructs_def)

section \<open>Sample lines\<close>

text \<open>
  The line that \<^verbatim>\<open>extractDocumentLines\<close> builds for \<^verbatim>\<open><p>s</p>\<close> at position \<open>i\<close>,
  for a text \<open>s\<close> without markup and without white space at its ends. A paragraph has
  neither rows nor image properties.
\<close>

definition paragraphLine :: "nat \<Rightarrow> string \<Rightarrow> line" where
  "paragraphLine i s =
     \<lparr>element = \<lparr>rows = [], src = None, src_attribute = None, alt = None\<rparr>,
      text' = s, html = s, index = i, tagName = ''p'', isEmpty = (s = []),
      isTable = False, isImage = False, outerHTML = ''<p>'' @ s @ ''</p>''\<rparr>"

section \<open>Structural equality of tables and images\<close>

text \<open>The loop over the cells of one row; both rows have the same number of cells.\<close>

fun compareCells :: "string list \<Rightarrow> string list \<Rightarrow> bool" where
  "compareCells (text1 # cells1) (text2 # cells2) =
     (if trim text1 \<noteq> trim text2 then False else compareCells cells1 cells2)"
| "compareCells cells1 cells2 = True"

text \<open>The loop over the rows; both tables have the same number of rows.\<close>

fun compareRows :: "string list list \<Rightarrow> string list list \<Rightarrow> bool" where
  "compareRows (cells1 # rows1) (cells2 # rows2) =
     (if length cells1 \<noteq> length cells2 then False
      else if \<not> compareCells cells1 cells2 then False
      else compareRows rows1 rows2)"
| "compareRows rows1 rows2 = True"

text \<open>The arguments are element references: \<^term>\<open>None\<close> is \<^verbatim>\<open>null\<close>.\<close>

definition compareTableContent :: "element option \<Rightarrow> element option \<Rightarrow> bool" where
  "compareTableContent table1 table2 =
     (case (table1, table2) of
        (Some t1, Some t2) \<Rightarrow>
          (let rows1 = rows t1; rows2 = rows t2
           in if length rows1 \<noteq> length rows2 then False else compareRows rows1 rows2)
      | _ \<Rightarrow> False)"

text \<open>\<^verbatim>\<open>a || b\<close> for a property \<open>a\<close> that is a string or undefined.\<close>

definition orElse :: "string option \<Rightarrow> string \<Rightarrow> string" where
  "orElse a b = (case a of Some s \<Rightarrow> (if s \<noteq> [] then s else b) | None \<Rightarrow> b)"

definition compareImageContent :: "element option \<Rightarrow> element option \<Rightarrow> bool" where
  "compareImageContent img1 img2 =
     (case (img1, img2) of
        (Some i1, Some i2) \<Rightarrow>
          (let src1 = orElse (src i1) (orElse (src_attribute i1) []);
               src2 = orElse (src i2) (orElse (src_attribute i2) []);
               alt1 = orElse (alt i1) [];
               alt2 = orElse (alt i2) []
           in src1 = src2 \<and> alt1 = alt2)
      | _ \<Rightarrow> False)"

section \<open>The host: DOM and diff library\<close>

text \<open>
  What a call can throw: a \<^verbatim>\<open>TypeError\<close> of the source itself, when it reads a
  property of \<^verbatim>\<open>null\<close> or \<^verbatim>\<open>undefined\<close>, or an exception of a DOM call.
\<close>

datatype error = TypeError | HostError

text \<open>
  The DOM and the diff library are not part of the repository; the functions below take
  them as a record. \<open>'d\<close> is the type of a \<^verbatim>\<open>div\<close> node. \<open>createElement\<close> is
  \<^verbatim>\<open>document.createElement("div")\<close>, the setters return the node they changed, and
  \<open>getTextContent\<close> is \<^verbatim>\<open>d.textContent || ""\<close>.
\<close>

record 'd host =
  createElement :: "error + 'd"
  setInnerHTML :: "'d \<Rightarrow> string \<Rightarrow> error + 'd"
  getTextContent :: "'d \<Rightarrow> string"
  setTextContent :: "'d \<Rightarrow> string \<Rightarrow> 'd"
  getInnerHTML :: "'d \<Rightarrow> string"
  diff_main :: differ
  diff_cleanupSemantic :: "diff list \<Rightarrow> diff list"

text \<open>Sequencing of calls that can throw: the first exception ends the computation.\<close>

definition andThen :: "error + 'a \<Rightarrow> ('a \<Rightarrow> error + 'b) \<Rightarrow> error + 'b" where
  "andThen r f = (case r of Inl e \<Rightarrow> Inl e | Inr v \<Rightarrow> f v)"

definition escapeHtml :: "'d host \<Rightarrow> string \<Rightarrow> error + string" where
  "escapeHtml h s =
     andThen (createElement h) (\<lambda>node. Inr (getInnerHTML h (setTextContent h node s)))"

text \<open>The \<^verbatim>\<open>try\<close> around the assignment of \<^verbatim>\<open>innerHTML\<close> returns the empty string.\<close>

definition extractPlainText :: "'d host \<Rightarrow> string \<Rightarrow> error + string" where
  "extractPlainText h html' =
     (if html' = [] then Inr []
      else andThen (createElement h) (\<lambda>tempDiv.
             case setInnerHTML h tempDiv html' of
               Inl e \<Rightarrow> Inr []
             | Inr tempDiv' \<Rightarrow> Inr (getTextContent h tempDiv')))"

text \<open>Here the \<^verbatim>\<open>catch\<close> only warns, and the node is returned as it was.\<close>

definition htmlToDiv :: "'d host \<Rightarrow> string \<Rightarrow> error + 'd" where
  "htmlToDiv h html' =
     (if html' = [] then createElement h
      else andThen (createElement h) (\<lambda>d.
             case setInnerHTML h d html' of
               Inl e \<Rightarrow> Inr d
             | Inr d' \<Rightarrow> Inr d'))"

section \<open>Word-level diff\<close>

datatype side = Left | Right

text \<open>\<^verbatim>\<open>text.length > 20 ? '...' : ''\<close>, appended to the first 20 characters.\<close>

definition ellipsis :: "string \<Rightarrow> string" where
  "ellipsis s = (if length s > 20 then ''...'' else [])"

text \<open>The markup that \<^verbatim>\<open>applyDiffHighlighting\<close> appends for one entry of the script.\<close>

definition highlightDiff :: "'d host \<Rightarrow> side \<Rightarrow> diff \<Rightarrow> error + string" where
  \<open>highlightDiff h side' d =
     (let operation = fst d; s = snd d
      in if operation = 0 then escapeHtml h s
         else if operation = 1 then
           (if side' = Right
            then andThen (escapeHtml h s) (\<lambda>e.
                   Inr (''<span class="git-inline-added">'' @ e @ ''</span>''))
            else andThen (escapeHtml h (take 20 s)) (\<lambda>e.
                   Inr (''<span class="git-inline-placeholder" style="background: rgba(34, 197, 94, 0.1); color: #22c55e; font-style: italic; padding: 1px 3px; border-radius: 2px; font-size: 0.9em;">[+''
                        @ e @ ellipsis s @ '']</span>'')))
         else if operation = - 1 then
           (if side' = Left
            then andThen (escapeHtml h s) (\<lambda>e.
                   Inr (''<span class="git-inline-removed">'' @ e @ ''</span>''))
            else andThen (escapeHtml h (take 20 s)) (\<lambda>e.
                   Inr (''<span class="git-inline-placeholder" style="background: rgba(239, 68, 68, 0.1); color: #ef4444; font-style: italic; padding: 1px 3px; border-radius: 2px; font-size: 0.9em;">[-''
                        @ e @ ellipsis s @ '']</span>'')))
         else Inr [])\<close>

text \<open>The \<^verbatim>\<open>forEach\<close> of \<^verbatim>\<open>applyDiffHighlighting\<close>, with \<^verbatim>\<open>result\<close> as accumulator.\<close>

fun applyDiffHighlighting_loop ::
  "'d host \<Rightarrow> diff list \<Rightarrow> side \<Rightarrow> string \<Rightarrow> error + string" where
  "applyDiffHighlighting_loop h [] side' result = Inr result"
| "applyDiffHighlighting_loop h (d # ds) side' result =
     andThen (highlightDiff h side' d) (\<lambda>piece.
       applyDiffHighlighting_loop h ds side' (result @ piece))"

definition applyDiffHighlighting :: "'d host \<Rightarrow> diff list \<Rightarrow> side \<Rightarrow> error + string" where
  "applyDiffHighlighting h ds side' = applyDiffHighlighting_loop h ds side' []"

definition performWordLevelDiff :: "'d host \<Rightarrow> string \<Rightarrow> string \<Rightarrow> error + string \<times> string" where
  "performWordLevelDiff h leftHtml rightHtml =
     andThen (extractPlainText h leftHtml) (\<lambda>leftText.
     andThen (extractPlainText h rightHtml) (\<lambda>rightText.
       let ds = diff_cleanupSemantic h (diff_main h leftText rightText)
       in andThen (applyDiffHighlighting h ds Left) (\<lambda>leftHighlighted.
          andThen (applyDiffHighlighting h ds Right) (\<lambda>rightHighlighted.
            Inr (leftHighlighted, rightHighlighted)))))"

section \<open>The pair classifier and the placeholders\<close>

datatype highlight =
  HighlightNone | Modified | Added | Removed | EmptySpaceAdded | EmptySpaceRemoved

text \<open>
  An entry of \<^verbatim>\<open>leftProcessed\<close> or \<^verbatim>\<open>rightProcessed\<close>. \<open>Highlighted l hl p\<close> is the
  object \<^verbatim>\<open>{ ...l, highlight: hl }\<close>, with \<^verbatim>\<open>processedHtml: p\<close> when \<open>p\<close> is not
  \<^term>\<open>None\<close>. \<open>Placeholder hl t tag tbl img\<close> is the object with \<^verbatim>\<open>element: null\<close>,
  empty \<^verbatim>\<open>text\<close> and \<^verbatim>\<open>html\<close>, \<^verbatim>\<open>isEmpty: true\<close>, \<^verbatim>\<open>highlight: hl\<close>,
  \<^verbatim>\<open>placeholderText: t\<close>, \<^verbatim>\<open>tagName: tag\<close>, \<^verbatim>\<open>isTable: tbl\<close> and \<^verbatim>\<open>isImage: img\<close>.
\<close>

datatype processed =
  Highlighted line highlight "string option"
| Placeholder highlight string string bool bool

record summary =
  additions :: nat
  deletions :: nat
  changes :: nat

text \<open>
  The state of the \<^verbatim>\<open>forEach\<close> over the alignment: \<^verbatim>\<open>leftProcessed\<close>,
  \<^verbatim>\<open>rightProcessed\<close>, \<^verbatim>\<open>additions\<close> and \<^verbatim>\<open>deletions\<close>.
\<close>

type_synonym tally = "processed list \<times> processed list \<times> nat \<times> nat"

text \<open>\<^verbatim>\<open>index !== null ? lines[index] : null\<close>; null and undefined are both \<^term>\<open>None\<close>.\<close>

definition lineAt :: "line list \<Rightarrow> nat option \<Rightarrow> line option" where
  "lineAt lines i = (case i of None \<Rightarrow> None | Some k \<Rightarrow> item lines k)"

text \<open>The \<^verbatim>\<open>case 'match'\<close> of the switch, for two lines that exist.\<close>

definition classifyMatch :: "'d host \<Rightarrow> line \<Rightarrow> line \<Rightarrow> tally \<Rightarrow> error + tally" where
  "classifyMatch h leftLine rightLine t =
     (case t of (leftProcessed, rightProcessed, adds, dels) \<Rightarrow>
        if isTable leftLine \<and> isTable rightLine then
          (if compareTableContent (Some (element leftLine)) (Some (element rightLine))
           then Inr (leftProcessed @ [Highlighted leftLine HighlightNone None],
                     rightProcessed @ [Highlighted rightLine HighlightNone None], adds, dels)
           else Inr (leftProcessed @ [Highlighted leftLine Modified None],
                     rightProcessed @ [Highlighted rightLine Modified None], adds + 1, dels + 1))
        else if isImage leftLine \<and> isImage rightLine then
          (if compareImageContent (Some (element leftLine)) (Some (element rightLine))
           then Inr (leftProcessed @ [Highlighted leftLine HighlightNone None],
                     rightProcessed @ [Highlighted rightLine HighlightNone None], adds, dels)
           else Inr (leftProcessed @ [Highlighted leftLine Modified None],
                     rightProcessed @ [Highlighted rightLine Modified None], adds + 1, dels + 1))
        else if areTextsEqual (text' leftLine) (text' rightLine) then
          Inr (leftProcessed @ [Highlighted leftLine HighlightNone None],
               rightProcessed @ [Highlighted rightLine HighlightNone None], adds, dels)
        else
          andThen (performWordLevelDiff h (html leftLine) (html rightLine))
            (\<lambda>(leftHighlighted, rightHighlighted).
               Inr (leftProcessed @ [Highlighted leftLine Modified (Some leftHighlighted)],
                    rightProcessed @ [Highlighted rightLine Modified (Some rightHighlighted)],
                    adds + 1, dels + 1)))"

text \<open>
  The callback of the \<^verbatim>\<open>forEach\<close>. Reading a field of a line that is \<^verbatim>\<open>null\<close> or
  \<^verbatim>\<open>undefined\<close> throws.
\<close>

definition classify ::
  "'d host \<Rightarrow> line list \<Rightarrow> line list \<Rightarrow> decision \<Rightarrow> tally \<Rightarrow> error + tally" where
  "classify h leftLines rightLines d t =
     (let leftLine = lineAt leftLines (leftIndex d);
          rightLine = lineAt rightLines (rightIndex d)
      in case t of (leftProcessed, rightProcessed, adds, dels) \<Rightarrow>
         (case type d of
            Match \<Rightarrow>
              (case (leftLine, rightLine) of
                 (Some l, Some r) \<Rightarrow> classifyMatch h l r t
               | _ \<Rightarrow> Inl TypeError)
          | Addition \<Rightarrow>
              (case rightLine of
                 None \<Rightarrow> Inl TypeError
               | Some r \<Rightarrow>
                   Inr (leftProcessed @
                          [Placeholder EmptySpaceAdded (text' r) (tagName r) (isTable r) (isImage r)],
                        rightProcessed @ [Highlighted r Added None], adds + 1, dels))
          | Deletion \<Rightarrow>
              (case leftLine of
                 None \<Rightarrow> Inl TypeError
               | Some l \<Rightarrow>
                   Inr (leftProcessed @ [Highlighted l Removed None],
                        rightProcessed @
                          [Placeholder EmptySpaceRemoved (text' l) (tagName l) (isTable l) (isImage l)],
                        adds, dels + 1))))"

fun classifyAll ::
  "'d host \<Rightarrow> line list \<Rightarrow> line list \<Rightarrow> decision list \<Rightarrow> tally \<Rightarrow> error + tally" where
  "classifyAll h leftLines rightLines [] t = Inr t"
| "classifyAll h leftLines rightLines (d # ds) t =
     andThen (classify h leftLines rightLines d t) (classifyAll h leftLines rightLines ds)"

text \<open>The result is the triple \<^verbatim>\<open>{ leftProcessed, rightProcessed, summary }\<close>.\<close>

definition performLineMutualComparison ::
  "'d host \<Rightarrow> line list \<Rightarrow> line list \<Rightarrow> error + processed list \<times> processed list \<times> summary" where
  "performLineMutualComparison h leftLines rightLines =
     (let alignment = createOptimalAlignment (diff_main h) leftLines rightLines
      in andThen (classifyAll h leftLines rightLines alignment ([], [], 0, 0))
           (\<lambda>(leftProcessed, rightProcessed, adds, dels).
              Inr (leftProcessed, rightProcessed,
                   \<lparr>additions = adds, deletions = dels, changes = adds + dels\<rparr>)))"

section \<open>The classifier on lines whose element reference may be null\<close>

text \<open>
  A line that \<^verbatim>\<open>extractDocumentLines\<close> builds always holds its node. The functions of
  this section are the same classifier, with the read of \<^verbatim>\<open>line.element\<close> as a
  parameter \<open>elementOf\<close>, so that a line may lack its node: \<open>elementOf l\<close> is
  \<^term>\<open>None\<close> where the property is \<^verbatim>\<open>null\<close> or missing. \<open>storedElement\<close> reads the node
  that the line holds; \<open>withoutElement\<close> finds none.
\<close>

definition storedElement :: "line \<Rightarrow> element option" where
  "storedElement l = Some (element l)"

definition withoutElement :: "line \<Rightarrow> element option" where
  "withoutElement l = None"

definition classifyMatchWith ::
  "(line \<Rightarrow> element option) \<Rightarrow> 'd host \<Rightarrow> line \<Rightarrow> line \<Rightarrow> tally \<Rightarrow> error + tally" where
  "classifyMatchWith elementOf h leftLine rightLine t =
     (case t of (leftProcessed, rightProcessed, adds, dels) \<Rightarrow>
        if isTable leftLine \<and> isTable rightLine then
          (if compareTableContent (elementOf leftLine) (elementOf rightLine)
           then Inr (leftProcessed @ [Highlighted leftLine HighlightNone None],
                     rightProcessed @ [Highlighted rightLine HighlightNone None], adds, dels)
           else Inr (leftProcessed @ [Highlighted leftLine Modified None],
                     rightProcessed @ [Highlighted rightLine Modified None], adds + 1, dels + 1))
        else if isImage leftLine \<and> isImage rightLine then
          (if compareImageContent (elementOf leftLine) (elementOf rightLine)
           then Inr (leftProcessed @ [Highlighted leftLine HighlightNone None],
                     rightProcessed @ [Highlighted rightLine HighlightNone None], adds, dels)
           else Inr (leftProcessed @ [Highlighted leftLine Modified None],
                     rightProcessed @ [Highlighted rightLine Modified None], adds + 1, dels + 1))
        else if areTextsEqual (text' leftLine) (text' rightLine) then
          Inr (leftProcessed @ [Highlighted leftLine HighlightNone None],
               rightProcessed @ [Highlighted rightLine HighlightNone None], adds, dels)
        else
          andThen (performWordLevelDiff h (html leftLine) (html rightLine))
            (\<lambda>(leftHighlighted, rightHighlighted).
               Inr (leftProcessed @ [Highlighted leftLine Modified (Some leftHighlighted)],
                    rightProcessed @ [Highlighted rightLine Modified (Some rightHighlighted)],
                    adds + 1, dels + 1)))"

definition classifyWith ::
  "(line \<Rightarrow> element option) \<Rightarrow> 'd host \<Rightarrow> line list \<Rightarrow> line list \<Rightarrow> decision \<Rightarrow> tally
     \<Rightarrow> error + tally" where
  "classifyWith elementOf h leftLines rightLines d t =
     (let leftLine = lineAt leftLines (leftIndex d);
          rightLine = lineAt rightLines (rightIndex d)
      in case t of (leftProcessed, rightProcessed, adds, dels) \<Rightarrow>
         (case type d of
            Match \<Rightarrow>
              (case (leftLine, rightLine) of
                 (Some l, Some r) \<Rightarrow> classifyMatchWith elementOf h l r t
               | _ \<Rightarrow> Inl TypeError)
          | Addition \<Rightarrow>
              (case rightLine of
                 None \<Rightarrow> Inl TypeError
               | Some r \<Rightarrow>
                   Inr (leftProcessed @
                          [Placeholder EmptySpaceAdded (text' r) (tagName r) (isTable r) (isImage r)],
                        rightProcessed @ [Highlighted r Added None], adds + 1, dels))
          | Deletion \<Rightarrow>
              (case leftLine of
                 None \<Rightarrow> Inl TypeError
               | Some l \<Rightarrow>
                   Inr (leftProcessed @ [Highlighted l Removed None],
                        rightProcessed @
                          [Placeholder EmptySpaceRemoved (text' l) (tagName l) (isTable l) (isImage l)],
                        adds, dels + 1))))"

fun classifyAllWith ::
  "(line \<Rightarrow> element option) \<Rightarrow> 'd host \<Rightarrow> line list \<Rightarrow> line list \<Rightarrow> decision list \<Rightarrow> tally
     \<Rightarrow> error + tally" where
  "classifyAllWith elementOf h leftLines rightLines [] t = Inr t"
| "classifyAllWith elementOf h leftLines rightLines (d # ds) t =
     andThen (classifyWith elementOf h leftLines rightLines d t)
       (classifyAllWith elementOf h leftLines rightLines ds)"

definition performLineMutualComparisonWith ::
  "(line \<Rightarrow> element option) \<Rightarrow> 'd host \<Rightarrow> line list \<Rightarrow> line list
     \<Rightarrow> error + processed list \<times> processed list \<times> summary" where
  "performLineMutualComparisonWith elementOf h leftLines rightLines =
     (let alignment = createOptimalAlignment (diff_main h) leftLines rightLines
      in andThen (classifyAllWith elementOf h leftLines rightLines alignment ([], [], 0, 0))
           (\<lambda>(leftProcessed, rightProcessed, adds, dels).
              Inr (leftProcessed, rightProcessed,
                   \<lparr>additions = adds, deletions = dels, changes = adds + dels\<rparr>)))"

text \<open>What a call has thrown, if anything.\<close>

definition thrown :: "error + 'a \<Rightarrow> error option" where
  "thrown r = (case r of Inl e \<Rightarrow> Some e | Inr v \<Rightarrow> None)"

section \<open>The detailed report\<close>

text \<open>\<^verbatim>\<open>String(n)\<close> for a natural number: its decimal digits.\<close>

function decimal :: "nat \<Rightarrow> string" where
  "decimal n =
     (if n < 10 then [char_of (48 + n)]
      else decimal (n div 10) @ [char_of (48 + n mod 10)])"
  by pat_completeness auto
termination
  by (relation "measure id") auto

declare decimal.simps [simp del]

record reportLine =
  v1 :: string
  v2 :: string
  status :: string
  diffHtml :: string
  formatChanges :: "string list"

record detailedReport =
  lines :: "reportLine list"
  tables :: "unit list"
  images :: "unit list"

text \<open>The \<^verbatim>\<open>map\<close> and \<^verbatim>\<open>join\<close> of \<^verbatim>\<open>createInlineDiff\<close>, one entry of the script at a time.\<close>

fun inlineDiff_loop :: "'d host \<Rightarrow> diff list \<Rightarrow> error + string" where
  \<open>inlineDiff_loop h [] = Inr []\<close>
| \<open>inlineDiff_loop h (d # ds) =
     andThen (escapeHtml h (snd d)) (\<lambda>escaped.
     andThen (inlineDiff_loop h ds) (\<lambda>rest.
       Inr ((if fst d = 1 then ''<span class="git-inline-added">'' @ escaped @ ''</span>''
             else if fst d = - 1 then ''<span class="git-inline-removed">'' @ escaped @ ''</span>''
             else escaped) @ rest)))\<close>

definition createInlineDiff :: "'d host \<Rightarrow> string \<Rightarrow> string \<Rightarrow> error + string" where
  "createInlineDiff h leftText rightText =
     inlineDiff_loop h (diff_cleanupSemantic h (diff_main h leftText rightText))"

text \<open>What one turn of the \<^verbatim>\<open>for\<close> loop of the report pushes: one entry or none.\<close>

definition reportEntry ::
  "'d host \<Rightarrow> line option \<Rightarrow> line option \<Rightarrow> nat \<Rightarrow> error + reportLine list" where
  \<open>reportEntry h leftLine rightLine i =
     (case (leftLine, rightLine) of
        (Some l, Some r) \<Rightarrow>
          (if areTextsEqual (text' l) (text' r)
           then andThen (escapeHtml h (text' l)) (\<lambda>e.
                  Inr [\<lparr>v1 = decimal (i + 1), v2 = decimal (i + 1), status = ''UNCHANGED'',
                        diffHtml = e, formatChanges = []\<rparr>])
           else andThen (createInlineDiff h (text' l) (text' r)) (\<lambda>e.
                  Inr [\<lparr>v1 = decimal (i + 1), v2 = decimal (i + 1), status = ''MODIFIED'',
                        diffHtml = e, formatChanges = [''Content modified'']\<rparr>]))
      | (Some l, None) \<Rightarrow>
          andThen (escapeHtml h (text' l)) (\<lambda>e.
            Inr [\<lparr>v1 = decimal (i + 1), v2 = [], status = ''REMOVED'',
                  diffHtml = ''<span class="git-inline-removed">'' @ e @ ''</span>'',
                  formatChanges = [''Line removed'']\<rparr>])
      | (None, Some r) \<Rightarrow>
          andThen (escapeHtml h (text' r)) (\<lambda>e.
            Inr [\<lparr>v1 = [], v2 = decimal (i + 1), status = ''ADDED'',
                  diffHtml = ''<span class="git-inline-added">'' @ e @ ''</span>'',
                  formatChanges = [''Line added'']\<rparr>])
      | (None, None) \<Rightarrow> Inr [])\<close>

fun report_loop ::
  "'d host \<Rightarrow> line list \<Rightarrow> line list \<Rightarrow> nat list \<Rightarrow> reportLine list \<Rightarrow> error + reportLine list" where
  "report_loop h leftLines rightLines [] acc = Inr acc"
| "report_loop h leftLines rightLines (i # is) acc =
     andThen (reportEntry h (item leftLines i) (item rightLines i) i) (\<lambda>entries.
       report_loop h leftLines rightLines is (acc @ entries))"

text \<open>The \<^verbatim>\<open>catch\<close> of the report returns the empty report.\<close>

definition generateSimpleDetailedReport :: "'d host \<Rightarrow> line list \<Rightarrow> line list \<Rightarrow> detailedReport" where
  "generateSimpleDetailedReport h leftLines rightLines =
     (let maxLines = max (length leftLines) (length rightLines)
      in case report_loop h leftLines rightLines [0..<maxLines] [] of
           Inl e \<Rightarrow> \<lparr>lines = [], tables = [], images = []\<rparr>
         | Inr entries \<Rightarrow> \<lparr>lines = entries, tables = [], images = []\<rparr>)"

section \<open>The comparison of two documents\<close>

text \<open>
  \<^verbatim>\<open>extractDocumentLines\<close> and \<^verbatim>\<open>applyProcessedLinesToDiv\<close> only walk and rebuild the
  DOM tree. They are taken by what they return: the lines of a container, and the
  container with the processed lines put in place; either may throw.
\<close>

record 'd page =
  extractDocumentLines :: "'d \<Rightarrow> error + line list"
  applyProcessedLinesToDiv :: "'d \<Rightarrow> processed list \<Rightarrow> error + 'd"

text \<open>An entry \<^verbatim>\<open>{ type, content }\<close> of \<^verbatim>\<open>leftDiffs\<close> or \<^verbatim>\<open>rightDiffs\<close>, as a pair.\<close>

type_synonym diffBlock = "string \<times> string"

record comparison =
  leftDiffs :: "diffBlock list"
  rightDiffs :: "diffBlock list"
  summary :: summary
  detailed :: detailedReport

definition performMutualComparison ::
  "'d host \<Rightarrow> 'd page \<Rightarrow> string \<Rightarrow> string \<Rightarrow> error + comparison" where
  "performMutualComparison h pg leftHtml rightHtml =
     andThen (htmlToDiv h leftHtml) (\<lambda>leftDiv.
     andThen (htmlToDiv h rightHtml) (\<lambda>rightDiv.
     andThen (extractDocumentLines pg leftDiv) (\<lambda>leftLines.
     andThen (extractDocumentLines pg rightDiv) (\<lambda>rightLines.
     andThen (performLineMutualComparison h leftLines rightLines)
       (\<lambda>(leftProcessed, rightProcessed, summary').
     andThen (applyProcessedLinesToDiv pg leftDiv leftProcessed) (\<lambda>leftDiv'.
     andThen (applyProcessedLinesToDiv pg rightDiv rightProcessed) (\<lambda>rightDiv'.
       Inr \<lparr>leftDiffs = [(''equal'', getInnerHTML h leftDiv')],
            rightDiffs = [(''equal'', getInnerHTML h rightDiv')],
            summary = summary',
            detailed = generateSimpleDetailedReport h leftLines rightLines\<rparr>)))))))"

text \<open>
  The object that \<^verbatim>\<open>compareHtmlDocuments\<close> resolves with both for documents of equal
  text and in its \<^verbatim>\<open>catch\<close>: the two inputs as they were given.
\<close>

definition unchangedDocuments :: "string \<Rightarrow> string \<Rightarrow> comparison" where
  "unchangedDocuments leftHtml rightHtml =
     \<lparr>leftDiffs = [(''equal'', leftHtml)],
      rightDiffs = [(''equal'', rightHtml)],
      summary = \<lparr>additions = 0, deletions = 0, changes = 0\<rparr>,
      detailed = \<lparr>lines = [], tables = [], images = []\<rparr>\<rparr>"

text \<open>The body of the \<^verbatim>\<open>try\<close>: the value passed to \<^verbatim>\<open>resolve\<close>, or what was thrown.\<close>

definition compareHtmlDocuments_try ::
  "'d host \<Rightarrow> 'd page \<Rightarrow> string \<Rightarrow> string \<Rightarrow> error + comparison" where
  "compareHtmlDocuments_try h pg leftHtml rightHtml =
     andThen (extractPlainText h leftHtml) (\<lambda>leftText.
     andThen (extractPlainText h rightHtml) (\<lambda>rightText.
       if trim leftText = trim rightText
       then Inr (unchangedDocuments leftHtml rightHtml)
       else performMutualComparison h pg leftHtml rightHtml))"

text \<open>
  The value the promise of \<^verbatim>\<open>compareHtmlDocuments\<close> is resolved with. The executor has
  no \<^verbatim>\<open>reject\<close>, and the callback of the timer runs wholly inside the \<^verbatim>\<open>try\<close>.
\<close>

definition compareHtmlDocuments :: "'d host \<Rightarrow> 'd page \<Rightarrow> string \<Rightarrow> string \<Rightarrow> comparison" where
  "compareHtmlDocuments h pg leftHtml rightHtml =
     (case compareHtmlDocuments_try h pg leftHtml rightHtml of
        Inr result \<Rightarrow> result
      | Inl e \<Rightarrow> unchangedDocuments leftHtml rightHtml)"

section \<open>A sample host\<close>

text \<open>
  A host for evaluating the functions on concrete inputs, for markup without entities
  and comments. A node is represented by its inner HTML; its text content is the markup
  without the tags; setting the text content escapes the characters that the
  serialization of a text node escapes. The differ is \<^const>\<open>sample_diff_main\<close>, and the
  semantic cleanup leaves a script as it is.
\<close>

function stripTags :: "string \<Rightarrow> string" where
  "stripTags [] = []"
| "stripTags (c # cs) =
     (if c = CHR ''<'' then stripTags (drop 1 (dropWhile (\<lambda>x. x \<noteq> CHR ''>'') cs))
      else c # stripTags cs)"
  by pat_completeness auto
termination
  by (relation "measure length")
     (auto simp: less_Suc_eq_le intro: le_trans [OF diff_le_self length_dropWhile_le])

definition escapeText :: "string \<Rightarrow> string" where
  "escapeText s =
     concat (map (\<lambda>c. if c = CHR ''&'' then ''&amp;''
                      else if c = CHR ''<'' then ''&lt;''
                      else if c = CHR ''>'' then ''&gt;''
                      else if of_char c = (160 :: nat) then ''&nbsp;''
                      else [c]) s)"

definition sample_host :: "string host" where
  "sample_host =
     \<lparr>createElement = Inr [],
      setInnerHTML = (\<lambda>node markup. Inr markup),
      getTextContent = stripTags,
      setTextContent = (\<lambda>node s. escapeText s),
      getInnerHTML = (\<lambda>node. node),
      diff_main = sample_diff_main,
      diff_cleanupSemantic = (\<lambda>script. script)\<rparr>"

text \<open>A host without a document: every \<^verbatim>\<open>document.createElement\<close> throws.\<close>

definition broken_host :: "string host" where
  "broken_host = sample_host\<lparr>createElement := Inl HostError\<rparr>"

text \<open>A page whose tree walk throws.\<close>

definition broken_page :: "string page" where
  "broken_page =
     \<lparr>extractDocumentLines = (\<lambda>container. Inl HostError),
      applyProcessedLinesToDiv = (\<lambda>container processedLines. Inr container)\<rparr>"

text \<open>
  The line of a table at position \<open>i\<close> whose markup is only rows of \<^verbatim>\<open>td\<close> cells, each
  holding a text without markup.
\<close>

definition tableLine :: "nat \<Rightarrow> string list list \<Rightarrow> line" where
  "tableLine i cellRows =
     (let markup = ''<tbody>'' @
            concat (map (\<lambda>cells. ''<tr>'' @
              concat (map (\<lambda>c. ''<td>'' @ c @ ''</td>'') cells) @ ''</tr>'') cellRows) @
            ''</tbody>''
      in \<lparr>element = \<lparr>rows = cellRows, src = None, src_attribute = None, alt = None\<rparr>,
          text' = trim (concat (concat cellRows)), html = markup, index = i,
          tagName = ''table'', isEmpty = False, isTable = True, isImage = False,
          outerHTML = ''<table>'' @ markup @ ''</table>''\<rparr>)"

section \<open>Notions of the specification\<close>

text \<open>
  The kind of a block in the data model of the specification, read off the two flags of
  a line: headings, paragraphs and list items are all \<open>Text\<close>.
\<close>

datatype blockKind = Text | Table | Image

definition kind :: "line \<Rightarrow> blockKind" where
  "kind l = (if isTable l then Table else if isImage l then Image else Text)"

text \<open>How \<^verbatim>\<open>extractDocumentLines\<close> sets the two flags of a line from the tag name.\<close>

definition fromElement :: "line \<Rightarrow> bool" where
  "fromElement l =
     (isTable l = (tagName l = ''table'') \<and>
      isImage l = (tagName l = ''img'' \<or> tagName l = ''figure''))"

text \<open>The decisions \<^verbatim>\<open>{ leftIndex: null, rightIndex: j, type: 'addition' }\<close> and
  \<^verbatim>\<open>{ leftIndex: k, rightIndex: k, type: 'match' }\<close>.\<close>

definition additionOf :: "nat \<Rightarrow> decision" where
  "additionOf j = \<lparr>leftIndex = None, rightIndex = Some j, type = Addition\<rparr>"

definition matchOf :: "nat \<Rightarrow> decision" where
  "matchOf k = \<lparr>leftIndex = Some k, rightIndex = Some k, type = Match\<rparr>"

text \<open>The scores of a target line against each candidate, in the order of the candidates.\<close>

definition similarities :: "differ \<Rightarrow> line \<Rightarrow> line list \<Rightarrow> rat list" where
  "similarities dm targetLine candidateLines =
     map (\<lambda>candidate. getTextSimilarity dm (text' targetLine) (text' candidate))
       candidateLines"

text \<open>
  A decision refers to the lines its type reads: a match to a line of each list, an
  addition to a right line, a deletion to a left line.
\<close>

definition inRange :: "'a list \<Rightarrow> nat option \<Rightarrow> bool" where
  "inRange xs r = (case r of None \<Rightarrow> False | Some i \<Rightarrow> i < length xs)"

definition wellReferenced :: "line list \<Rightarrow> line list \<Rightarrow> decision \<Rightarrow> bool" where
  "wellReferenced leftLines rightLines d =
     (case type d of
        Match \<Rightarrow> inRange leftLines (leftIndex d) \<and> inRange rightLines (rightIndex d)
      | Addition \<Rightarrow> inRange rightLines (rightIndex d)
      | Deletion \<Rightarrow> inRange leftLines (leftIndex d))"

section \<open>Properties of the similarity metric\<close>

lemma unchangedLength_eq: "unchangedLength ds acc = acc + equalLength ds"
  by (induction ds arbitrary: acc) (auto simp: equalLength_def)

lemma getTextSimilarity_nonneg: "0 \<le> getTextSimilarity dm a b"
  by (simp add: getTextSimilarity_def Let_def)

lemma equalLength_le_side:
  "equalLength ds \<le> length (concat (map snd (filter (\<lambda>d. fst d = 0 \<or> fst d = k) ds)))"
  by (induction ds) (auto simp: equalLength_def)

lemma equalLength_le_left:
  assumes "reconstructs ds a b"
  shows "equalLength ds \<le> length a"
  using assms equalLength_le_side [of ds "- 1"] by (auto simp: reconstructs_def)

lemma equalLength_onlyEqual:
  assumes "onlyEqual ds"
  shows "equalLength ds = length (concat (map snd (filter (\<lambda>d. fst d = 0 \<or> fst d = k) ds)))"
  using assms by (induction ds) (auto simp: equalLength_def onlyEqual_def)

lemma getTextSimilarity_le_one:
  assumes "reconstructs (dm a b) a b"
  shows "getTextSimilarity dm a b \<le> 1"
proof -
  have "equalLength (dm a b) \<le> max (length a) (length b)"
    using equalLength_le_left [OF assms] by simp
  then show ?thesis
    by (simp add: getTextSimilarity_def Let_def unchangedLength_eq divide_le_eq_1)
qed

lemma getTextSimilarity_self:
  assumes "reconstructs (dm a a) a a" and "onlyEqual (dm a a)"
  shows "getTextSimilarity dm a a = 1"
proof -
  have "equalLength (dm a a) = length a"
    using assms equalLength_onlyEqual [of "dm a a" 1] by (simp add: reconstructs_def)
  then show ?thesis
    by (simp add: getTextSimilarity_def Let_def unchangedLength_eq)
qed

lemma diff_of_reconstructs: "reconstructs (diff_of oc a b) a b"
  using diff_of [of oc] by simp




section \<open>Properties of the lookahead matcher\<close>

lemma findBestMatch_loop_keep:
  assumes "\<forall>s \<in> set (similarities dm t cs). s \<le> bs"
  shows "findBestMatch_loop dm t cs i (bs, bi) = (bs, bi)"
  using assms by (induction cs arbitrary: i) (auto simp: similarities_def Let_def)

lemma findBestMatch_loop_pick:
  assumes "\<exists>s \<in> set (similarities dm t cs). bs < s"
  shows "\<exists>k < length cs.
           findBestMatch_loop dm t cs i (bs, bi) = (similarities dm t cs ! k, i + int k) \<and>
           bs < similarities dm t cs ! k \<and>
           (\<forall>s \<in> set (similarities dm t cs). s \<le> similarities dm t cs ! k) \<and>
           (\<forall>k' < k. similarities dm t cs ! k' < similarities dm t cs ! k)"
  using assms
proof (induction cs arbitrary: i bs bi)
  case Nil
  then show ?case by (simp add: similarities_def)
next
  case (Cons c cs)
  define s where "s = getTextSimilarity dm (text' t) (text' c)"
  have sims: "similarities dm t (c # cs) = s # similarities dm t cs"
    by (simp add: similarities_def s_def)
  define b where "b = (if bs < s then (s, i) else (bs, bi))"
  have step: "findBestMatch_loop dm t (c # cs) i (bs, bi)
                = findBestMatch_loop dm t cs (i + 1) (fst b, snd b)"
    by (simp add: s_def b_def Let_def)
  have b_ge: "bs \<le> fst b" and b_s: "s \<le> fst b"
    by (simp_all add: b_def)
  show ?case
  proof (cases "\<exists>s' \<in> set (similarities dm t cs). fst b < s'")
    case False
    then have le: "\<forall>s' \<in> set (similarities dm t cs). s' \<le> fst b"
      by auto
    with Cons.prems have "bs < s"
      by (fastforce simp: sims b_def split: if_splits)
    then have b: "b = (s, i)"
      by (simp add: b_def)
    have "findBestMatch_loop dm t (c # cs) i (bs, bi) = (s, i)"
      unfolding step using findBestMatch_loop_keep [OF le] b by simp
    with \<open>bs < s\<close> le b show ?thesis
      by (intro exI [of _ 0]) (simp add: sims)
  next
    case True
    from Cons.IH [OF True, of "i + 1" "snd b"]
    obtain k where k: "k < length cs"
      "findBestMatch_loop dm t cs (i + 1) (fst b, snd b)
         = (similarities dm t cs ! k, i + 1 + int k)"
      "fst b < similarities dm t cs ! k"
      "\<forall>s' \<in> set (similarities dm t cs). s' \<le> similarities dm t cs ! k"
      "\<forall>k' < k. similarities dm t cs ! k' < similarities dm t cs ! k"
      by blast
    show ?thesis
    proof (intro exI [of _ "Suc k"] conjI allI impI)
      show "Suc k < length (c # cs)"
        using k(1) by simp
      show "findBestMatch_loop dm t (c # cs) i (bs, bi)
              = (similarities dm t (c # cs) ! Suc k, i + int (Suc k))"
        unfolding step k(2) by (simp add: sims)
      show "bs < similarities dm t (c # cs) ! Suc k"
        using b_ge k(3) by (simp add: sims)
      show "\<forall>s' \<in> set (similarities dm t (c # cs)).
              s' \<le> similarities dm t (c # cs) ! Suc k"
        using b_s k(3,4) by (simp add: sims)
      show "similarities dm t (c # cs) ! k' < similarities dm t (c # cs) ! Suc k"
        if "k' < Suc k" for k'
        using that b_s k(3,5) by (cases k') (simp_all add: sims)
    qed
  qed
qed

text \<open>
  Claim C8, as stated: for every candidate list the matcher returns the first candidate
  with the highest score. It does not where no candidate scores above 0: the best score
  starts at 0 and only a strictly higher score replaces it, so an empty paragraph scored
  against the one candidate \<^verbatim>\<open><p>x</p>\<close> (score 0, without a call of the differ) gets
  the index \<^verbatim>\<open>-1\<close>, not the index 0 of its only and therefore best candidate.
\<close>

theorem findBestMatch_zero_scores_counterexample:
  "similarities sample_diff_main (paragraphLine 0 []) [paragraphLine 0 ''x''] = [0] \<and>
   findBestMatch sample_diff_main (paragraphLine 0 []) [paragraphLine 0 ''x''] = (0, - 1) \<and>
   snd (findBestMatch sample_diff_main (paragraphLine 0 []) [paragraphLine 0 ''x'']) \<noteq> 0"
  by code_simp

text \<open>
  Claim C8, amended. When every candidate scores 0, as for the empty candidate list,
  \<^verbatim>\<open>findBestMatch\<close> returns the score 0 and the index \<^verbatim>\<open>-1\<close>. When some candidate
  scores above 0, it returns the index \<open>k\<close> of a candidate together with that
  candidate's score, no candidate scores higher, and every candidate before \<open>k\<close>
  scores strictly lower: the first candidate of the highest score.
\<close>

theorem findBestMatch_first_highest:
  "((\<forall>s \<in> set (similarities dm targetLine candidateLines). s = 0) \<longrightarrow>
      findBestMatch dm targetLine candidateLines = (0, - 1)) \<and>
   ((\<exists>s \<in> set (similarities dm targetLine candidateLines). s \<noteq> 0) \<longrightarrow>
      (\<exists>k < length candidateLines.
         findBestMatch dm targetLine candidateLines
           = (similarities dm targetLine candidateLines ! k, int k) \<and>
         (\<forall>s \<in> set (similarities dm targetLine candidateLines).
            s \<le> similarities dm targetLine candidateLines ! k) \<and>
         (\<forall>k' < k. similarities dm targetLine candidateLines ! k'
                      < similarities dm targetLine candidateLines ! k)))"
proof (intro conjI impI)
  assume "\<forall>s \<in> set (similarities dm targetLine candidateLines). s = 0"
  then have "\<forall>s \<in> set (similarities dm targetLine candidateLines). s \<le> 0"
    by auto
  then show "findBestMatch dm targetLine candidateLines = (0, - 1)"
    unfolding findBestMatch_def by (rule findBestMatch_loop_keep)
next
  assume "\<exists>s \<in> set (similarities dm targetLine candidateLines). s \<noteq> 0"
  moreover have "\<forall>s \<in> set (similarities dm targetLine candidateLines). 0 \<le> s"
    by (auto simp: similarities_def getTextSimilarity_nonneg)
  ultimately have "\<exists>s \<in> set (similarities dm targetLine candidateLines). 0 < s"
    by force
  from findBestMatch_loop_pick [OF this, of 0 "- 1"]
  show "\<exists>k < length candidateLines.
         findBestMatch dm targetLine candidateLines
           = (similarities dm targetLine candidateLines ! k, int k) \<and>
         (\<forall>s \<in> set (similarities dm targetLine candidateLines).
            s \<le> similarities dm targetLine candidateLines ! k) \<and>
         (\<forall>k' < k. similarities dm targetLine candidateLines ! k'
                      < similarities dm targetLine candidateLines ! k)"
    unfolding findBestMatch_def by auto
qed

theorem findBestMatch_first_highest_witness:
  "(\<exists>s \<in> set (similarities sample_diff_main (paragraphLine 0 ''a'')
        [paragraphLine 1 ''b'', paragraphLine 2 ''ab'', paragraphLine 3 ''a'',
         paragraphLine 4 ''a'']). s \<noteq> 0) \<and>
   (\<exists>k < 4.
      findBestMatch sample_diff_main (paragraphLine 0 ''a'')
          [paragraphLine 1 ''b'', paragraphLine 2 ''ab'', paragraphLine 3 ''a'',
           paragraphLine 4 ''a'']
        = (similarities sample_diff_main (paragraphLine 0 ''a'')
             [paragraphLine 1 ''b'', paragraphLine 2 ''ab'', paragraphLine 3 ''a'',
              paragraphLine 4 ''a''] ! k, int k)) \<and>
   findBestMatch sample_diff_main (paragraphLine 0 ''a'')
       [paragraphLine 1 ''b'', paragraphLine 2 ''ab'', paragraphLine 3 ''a'',
        paragraphLine 4 ''a''] = (1, 2)"
proof -
  define cs where "cs = [paragraphLine 1 ''b'', paragraphLine 2 ''ab'', paragraphLine 3 ''a'',
    paragraphLine 4 ''a'']"
  have scores: "similarities sample_diff_main (paragraphLine 0 ''a'') cs = [0, 1 / 2, 1, 1]"
    unfolding cs_def by code_simp
  have some: "\<exists>s \<in> set (similarities sample_diff_main (paragraphLine 0 ''a'') cs). s \<noteq> 0"
    unfolding scores by simp
  have len: "length cs = 4"
    by (simp add: cs_def)
  have picked: "\<exists>k < 4. findBestMatch sample_diff_main (paragraphLine 0 ''a'') cs
      = (similarities sample_diff_main (paragraphLine 0 ''a'') cs ! k, int k)"
    using findBestMatch_first_highest [of sample_diff_main "paragraphLine 0 ''a''" cs] some
    unfolding len by blast
  have val: "findBestMatch sample_diff_main (paragraphLine 0 ''a'') cs = (1, 2)"
    unfolding cs_def by code_simp
  show ?thesis
    using some picked val unfolding cs_def by blast
qed

section \<open>Properties of the block aligner\<close>

lemma align_step_Some:
  assumes "align_step dm ls rs i j = Some (d, i', j')"
  shows "(leftIndex d = Some i \<and> i' = Suc i \<and> i < length ls \<or> leftIndex d = None \<and> i' = i) \<and>
         (rightIndex d = Some j \<and> j' = Suc j \<and> j < length rs \<or> rightIndex d = None \<and> j' = j)"
  using assms
  by (auto simp: align_step_def lookahead_step_def item_def Let_def
           split: if_splits option.splits)

lemma align_step_None:
  assumes "align_step dm ls rs i j = None"
  shows "\<not> i < length ls \<and> \<not> j < length rs"
  using assms
  by (auto simp: align_step_def item_def Let_def split: if_splits option.splits)

lemma align_step_running:
  assumes "align_step dm ls rs i j = Some r"
  shows "i < length ls \<or> j < length rs"
  using assms
  by (auto simp: align_step_def item_def split: if_splits option.splits)

lemma map_filter_snoc:
  "List.map_filter f (xs @ [x])
     = List.map_filter f xs @ (case f x of None \<Rightarrow> [] | Some y \<Rightarrow> [y])"
  by (simp add: List.map_filter_def split: option.splits)

lemma align_loop_unfold:
  assumes "align_step dm ls rs i j = Some (d, i', j')"
  shows "align_loop dm ls rs i j acc = align_loop dm ls rs i' j' (acc @ [d])"
  using assms align_step_running [OF assms] by (subst align_loop.simps) auto

lemma align_loop_stop:
  assumes "\<not> i < length ls" and "\<not> j < length rs"
  shows "align_loop dm ls rs i j acc = acc"
  using assms by (subst align_loop.simps) simp

lemma align_loop_left:
  "List.map_filter leftIndex (align_loop dm ls rs i j acc)
     = List.map_filter leftIndex acc @ [i..<length ls]"
proof (induction dm ls rs i j acc rule: align_loop.induct)
  case (1 dm ls rs i j acc)
  show ?case
  proof (cases "align_step dm ls rs i j")
    case None
    then show ?thesis
      using align_step_None [OF None] by (simp add: align_loop_stop)
  next
    case (Some r)
    obtain d i' j' where r: "r = (d, i', j')"
      by (cases r)
    have step: "align_step dm ls rs i j = Some (d, i', j')"
      using Some r by simp
    have running: "i < length ls \<or> j < length rs"
      using step by (rule align_step_running)
    have IH: "List.map_filter leftIndex (align_loop dm ls rs i' j' (acc @ [d]))
                = List.map_filter leftIndex (acc @ [d]) @ [i'..<length ls]"
      using "1.IH" [OF running step] by simp
    from align_step_Some [OF step] show ?thesis
      unfolding align_loop_unfold [OF step] IH
      by (auto simp: map_filter_snoc upt_conv_Cons)
  qed
qed

lemma align_loop_right:
  "List.map_filter rightIndex (align_loop dm ls rs i j acc)
     = List.map_filter rightIndex acc @ [j..<length rs]"
proof (induction dm ls rs i j acc rule: align_loop.induct)
  case (1 dm ls rs i j acc)
  show ?case
  proof (cases "align_step dm ls rs i j")
    case None
    then show ?thesis
      using align_step_None [OF None] by (simp add: align_loop_stop)
  next
    case (Some r)
    obtain d i' j' where r: "r = (d, i', j')"
      by (cases r)
    have step: "align_step dm ls rs i j = Some (d, i', j')"
      using Some r by simp
    have running: "i < length ls \<or> j < length rs"
      using step by (rule align_step_running)
    have IH: "List.map_filter rightIndex (align_loop dm ls rs i' j' (acc @ [d]))
                = List.map_filter rightIndex (acc @ [d]) @ [j'..<length rs]"
      using "1.IH" [OF running step] by simp
    from align_step_Some [OF step] show ?thesis
      unfolding align_loop_unfold [OF step] IH
      by (auto simp: map_filter_snoc upt_conv_Cons)
  qed
qed

text \<open>
  Claim C1. The left references of the decisions of \<^verbatim>\<open>createOptimalAlignment\<close>, read in
  order, are the left indices \<open>0, ..., length leftLines - 1\<close>, each once, and the right
  references are the right indices likewise, for every differ and every two lists.
\<close>

theorem createOptimalAlignment_coverage:
  "List.map_filter leftIndex (createOptimalAlignment dm leftLines rightLines)
     = [0..<length leftLines] \<and>
   List.map_filter rightIndex (createOptimalAlignment dm leftLines rightLines)
     = [0..<length rightLines]"
  unfolding createOptimalAlignment_def align_loop_left align_loop_right by simp

text \<open>
  Claim C4. With a current line on both sides, the loop pushes the direct match and
  advances both cursors exactly when the normalized texts are equal or the similarity
  is strictly above 0.8; otherwise the turn is the lookahead arm. In particular a
  similarity of exactly 0.8 with different normalized texts goes to the lookahead arm.
\<close>

theorem direct_match_rule:
  assumes "i < length leftLines" and "j < length rightLines"
  shows "align_step dm leftLines rightLines i j =
           (if areTextsEqual (text' (leftLines ! i)) (text' (rightLines ! j)) \<or>
               getTextSimilarity dm (text' (leftLines ! i)) (text' (rightLines ! j)) > 8 / 10
            then Some (\<lparr>leftIndex = Some i, rightIndex = Some j, type = Match\<rparr>, i + 1, j + 1)
            else Some (lookahead_step dm leftLines rightLines
                         (leftLines ! i) (rightLines ! j) i j)) \<and>
         (getTextSimilarity dm (text' (leftLines ! i)) (text' (rightLines ! j)) = 8 / 10 \<and>
          \<not> areTextsEqual (text' (leftLines ! i)) (text' (rightLines ! j)) \<longrightarrow>
            align_step dm leftLines rightLines i j
              = Some (lookahead_step dm leftLines rightLines
                        (leftLines ! i) (rightLines ! j) i j))"
  using assms by (auto simp: align_step_def item_def Let_def)

theorem direct_match_rule_witness:
  "getTextSimilarity sample_diff_main ''abcde'' ''abcdX'' = 8 / 10 \<and>
   \<not> areTextsEqual ''abcde'' ''abcdX'' \<and>
   align_step sample_diff_main
       [paragraphLine 0 ''abcde'', paragraphLine 1 ''zzzzz'']
       [paragraphLine 0 ''abcdX'', paragraphLine 1 ''abcde''] 0 0
     = Some (lookahead_step sample_diff_main
         [paragraphLine 0 ''abcde'', paragraphLine 1 ''zzzzz'']
         [paragraphLine 0 ''abcdX'', paragraphLine 1 ''abcde'']
         (paragraphLine 0 ''abcde'') (paragraphLine 0 ''abcdX'') 0 0) \<and>
   align_step sample_diff_main
       [paragraphLine 0 ''abcde'', paragraphLine 1 ''zzzzz'']
       [paragraphLine 0 ''abcdX'', paragraphLine 1 ''abcde''] 0 0
     = Some (\<lparr>leftIndex = None, rightIndex = Some 0, type = Addition\<rparr>, 0, 1)"
  using direct_match_rule [of 0 "[paragraphLine 0 ''abcde'', paragraphLine 1 ''zzzzz'']" 0
      "[paragraphLine 0 ''abcdX'', paragraphLine 1 ''abcde'']" sample_diff_main]
  by code_simp

text \<open>
  Claim C3. With a current line on both sides and the direct-match test failed, the left
  line is scored against the next three right lines and the right line against the next
  three left lines. The turn pushes an addition of the right line and advances only the
  right cursor exactly when the left-ahead score is strictly above both the right-ahead
  score and 0.8; failing that, it pushes a deletion of the left line and advances only
  the left cursor exactly when the right-ahead score is strictly above 0.8; failing that
  too, it pushes a match of both lines and advances both cursors.
\<close>

theorem lookahead_rule:
  assumes "i < length leftLines" and "j < length rightLines"
    and "\<not> (getTextSimilarity dm (text' (leftLines ! i)) (text' (rightLines ! j)) > 8 / 10 \<or>
             areTextsEqual (text' (leftLines ! i)) (text' (rightLines ! j)))"
  shows "let leftAhead = fst (findBestMatch dm (leftLines ! i) (take 3 (drop (j + 1) rightLines)));
             rightAhead = fst (findBestMatch dm (rightLines ! j) (take 3 (drop (i + 1) leftLines)));
             step = align_step dm leftLines rightLines i j
         in (step = Some (\<lparr>leftIndex = None, rightIndex = Some j, type = Addition\<rparr>, i, j + 1)
               \<longleftrightarrow> leftAhead > rightAhead \<and> leftAhead > 8 / 10) \<and>
            (\<not> (leftAhead > rightAhead \<and> leftAhead > 8 / 10) \<longrightarrow>
               (step = Some (\<lparr>leftIndex = Some i, rightIndex = None, type = Deletion\<rparr>, i + 1, j)
                  \<longleftrightarrow> rightAhead > 8 / 10)) \<and>
            (\<not> (leftAhead > rightAhead \<and> leftAhead > 8 / 10) \<and> \<not> rightAhead > 8 / 10 \<longrightarrow>
               step = Some (\<lparr>leftIndex = Some i, rightIndex = Some j, type = Match\<rparr>,
                            i + 1, j + 1))"
  using assms
  by (auto simp: align_step_def lookahead_step_def item_def slice_def Let_def)

theorem lookahead_rule_witness:
  "\<not> (getTextSimilarity sample_diff_main ''qqq'' ''hello'' > 8 / 10 \<or>
      areTextsEqual ''qqq'' ''hello'') \<and>
   fst (findBestMatch sample_diff_main (paragraphLine 0 ''qqq'') []) = 0 \<and>
   fst (findBestMatch sample_diff_main (paragraphLine 0 ''hello'') [paragraphLine 1 ''hello'']) = 1 \<and>
   align_step sample_diff_main
       [paragraphLine 0 ''qqq'', paragraphLine 1 ''hello''] [paragraphLine 0 ''hello''] 0 0
     = Some (\<lparr>leftIndex = Some 0, rightIndex = None, type = Deletion\<rparr>, 1, 0)"
  using lookahead_rule [of 0 "[paragraphLine 0 ''qqq'', paragraphLine 1 ''hello'']" 0
      "[paragraphLine 0 ''hello'']" sample_diff_main]
  by code_simp

section \<open>Properties of the classifier\<close>

lemma align_loop_empty_left:
  "align_loop dm [] rs 0 j acc = acc @ map additionOf [j..<length rs]"
proof (induction "length rs - j" arbitrary: j acc)
  case 0
  then show ?case by (simp add: align_loop_stop)
next
  case (Suc n)
  then have j: "j < length rs" by simp
  have step: "align_step dm [] rs 0 j = Some (additionOf j, 0, Suc j)"
    using j by (simp add: align_step_def item_def additionOf_def)
  have "n = length rs - Suc j" using Suc.hyps(2) by simp
  from Suc.hyps(1) [OF this] show ?case
    unfolding align_loop_unfold [OF step] using j by (simp add: upt_conv_Cons)
qed

lemma classify_addition:
  assumes "j < length rs"
  shows "classify h ls rs (additionOf j) (lp, rp, a, d)
           = Inr (lp @ [Placeholder EmptySpaceAdded (text' (rs ! j)) (tagName (rs ! j))
                          (isTable (rs ! j)) (isImage (rs ! j))],
                  rp @ [Highlighted (rs ! j) Added None], a + 1, d)"
  using assms by (simp add: classify_def lineAt_def item_def additionOf_def)

lemma classifyAll_additions:
  "classifyAll h ls rs (map additionOf [j..<length rs]) (lp, rp, a, d)
     = Inr (lp @ map (\<lambda>r. Placeholder EmptySpaceAdded (text' r) (tagName r) (isTable r) (isImage r))
                   (drop j rs),
            rp @ map (\<lambda>r. Highlighted r Added None) (drop j rs),
            a + (length rs - j), d)"
proof (induction "length rs - j" arbitrary: j lp rp a)
  case 0
  then show ?case by simp
next
  case (Suc n)
  then have j: "j < length rs" by simp
  have n: "n = length rs - Suc j" using Suc.hyps(2) by simp
  have dr: "drop j rs = rs ! j # drop (Suc j) rs"
    using j by (simp add: Cons_nth_drop_Suc)
  show ?case
    using j Suc.hyps(1) [OF n]
    by (simp add: upt_conv_Cons classify_addition andThen_def dr)
qed

text \<open>
  Claim C5. For an empty left list the alignment is one addition per right line, in
  order. The left output is then one placeholder per right line, tagged
  \<^verbatim>\<open>empty-space-added\<close> and carrying that line's text, tag name and table and image
  flags; the right output is the right lines tagged \<^verbatim>\<open>added\<close>; and the summary counts
  as many additions as there are right lines, no deletion, and as many changes.
\<close>

theorem pure_insertion:
  "createOptimalAlignment (diff_main h) [] rightLines
     = map (\<lambda>j. \<lparr>leftIndex = None, rightIndex = Some j, type = Addition\<rparr>)
         [0..<length rightLines] \<and>
   performLineMutualComparison h [] rightLines
     = Inr (map (\<lambda>r. Placeholder EmptySpaceAdded (text' r) (tagName r) (isTable r) (isImage r))
              rightLines,
            map (\<lambda>r. Highlighted r Added None) rightLines,
            \<lparr>additions = length rightLines, deletions = 0, changes = length rightLines\<rparr>)"
proof -
  have al: "createOptimalAlignment (diff_main h) [] rightLines
              = map additionOf [0..<length rightLines]"
    by (simp add: createOptimalAlignment_def align_loop_empty_left)
  show ?thesis
    unfolding performLineMutualComparison_def Let_def al classifyAll_additions
    by (simp add: andThen_def additionOf_def [abs_def])
qed

theorem pure_insertion_witness:
  "performLineMutualComparison sample_host [] [paragraphLine 0 ''x'', tableLine 1 [[''a'']]]
     = Inr ([Placeholder EmptySpaceAdded ''x'' ''p'' False False,
             Placeholder EmptySpaceAdded ''a'' ''table'' True False],
            [Highlighted (paragraphLine 0 ''x'') Added None,
             Highlighted (tableLine 1 [[''a'']]) Added None],
            \<lparr>additions = 2, deletions = 0, changes = 2\<rparr>)"
  using pure_insertion [of sample_host "[paragraphLine 0 ''x'', tableLine 1 [[''a'']]]"]
  by code_simp

lemma areTextsEqual_refl: "areTextsEqual s s"
  by (simp add: areTextsEqual_def)

lemma compareCells_refl: "compareCells cs cs"
  by (induction cs) simp_all

lemma compareRows_refl: "compareRows rs rs"
  by (induction rs) (simp_all add: compareCells_refl)

lemma compareTableContent_refl: "compareTableContent (Some e) (Some e)"
  by (simp add: compareTableContent_def compareRows_refl)

lemma compareImageContent_refl: "compareImageContent (Some e) (Some e)"
  by (simp add: compareImageContent_def)

lemma align_loop_same:
  "align_loop dm ls ls i i acc = acc @ map matchOf [i..<length ls]"
proof (induction "length ls - i" arbitrary: i acc)
  case 0
  then show ?case by (simp add: align_loop_stop)
next
  case (Suc n)
  then have i: "i < length ls" by simp
  have step: "align_step dm ls ls i i = Some (matchOf i, Suc i, Suc i)"
    using i by (simp add: align_step_def item_def matchOf_def areTextsEqual_refl)
  have "n = length ls - Suc i" using Suc.hyps(2) by simp
  from Suc.hyps(1) [OF this] show ?case
    unfolding align_loop_unfold [OF step] using i by (simp add: upt_conv_Cons)
qed

lemma classifyMatch_same:
  "classifyMatch h l l (lp, rp, a, d)
     = Inr (lp @ [Highlighted l HighlightNone None], rp @ [Highlighted l HighlightNone None], a, d)"
  by (simp add: classifyMatch_def compareTableContent_refl compareImageContent_refl
        areTextsEqual_refl)

lemma classify_match:
  assumes "i < length ls" and "j < length rs"
  shows "classify h ls rs \<lparr>leftIndex = Some i, rightIndex = Some j, type = Match\<rparr> t
           = classifyMatch h (ls ! i) (rs ! j) t"
  using assms by (cases t) (simp add: classify_def lineAt_def item_def)

lemma classifyAll_same:
  "classifyAll h ls ls (map matchOf [i..<length ls]) (lp, rp, a, d)
     = Inr (lp @ map (\<lambda>l. Highlighted l HighlightNone None) (drop i ls),
            rp @ map (\<lambda>l. Highlighted l HighlightNone None) (drop i ls), a, d)"
proof (induction "length ls - i" arbitrary: i lp rp)
  case 0
  then show ?case by simp
next
  case (Suc n)
  then have i: "i < length ls" by simp
  have n: "n = length ls - Suc i" using Suc.hyps(2) by simp
  have dr: "drop i ls = ls ! i # drop (Suc i) ls"
    using i by (simp add: Cons_nth_drop_Suc)
  show ?case
    using i Suc.hyps(1) [OF n]
    by (simp add: upt_conv_Cons matchOf_def classify_match classifyMatch_same andThen_def dr)
qed

text \<open>
  Claim C7. A list of lines aligned against itself gives one match per line, pairing the
  line with itself. For every such pair the texts are equal after normalization and the
  table and image comparisons of the element with itself hold, so every output line on
  both sides has the highlight \<^verbatim>\<open>none\<close> and the summary is all zero.
\<close>

theorem identity_alignment:
  "createOptimalAlignment (diff_main h) blocks blocks
     = map (\<lambda>k. \<lparr>leftIndex = Some k, rightIndex = Some k, type = Match\<rparr>) [0..<length blocks] \<and>
   (\<forall>l \<in> set blocks.
      areTextsEqual (text' l) (text' l) \<and>
      compareTableContent (Some (element l)) (Some (element l)) \<and>
      compareImageContent (Some (element l)) (Some (element l))) \<and>
   performLineMutualComparison h blocks blocks
     = Inr (map (\<lambda>l. Highlighted l HighlightNone None) blocks,
            map (\<lambda>l. Highlighted l HighlightNone None) blocks,
            \<lparr>additions = 0, deletions = 0, changes = 0\<rparr>)"
proof -
  have al: "createOptimalAlignment (diff_main h) blocks blocks = map matchOf [0..<length blocks]"
    by (simp add: createOptimalAlignment_def align_loop_same)
  have "performLineMutualComparison h blocks blocks
     = Inr (map (\<lambda>l. Highlighted l HighlightNone None) blocks,
            map (\<lambda>l. Highlighted l HighlightNone None) blocks,
            \<lparr>additions = 0, deletions = 0, changes = 0\<rparr>)"
    unfolding performLineMutualComparison_def Let_def al classifyAll_same
    by (simp add: andThen_def)
  with al show ?thesis
    by (simp add: matchOf_def [abs_def] areTextsEqual_refl compareTableContent_refl
          compareImageContent_refl)
qed

theorem identity_alignment_witness:
  "createOptimalAlignment sample_diff_main
       [paragraphLine 0 ''Hello'', tableLine 1 [[''a'', ''b'']]]
       [paragraphLine 0 ''Hello'', tableLine 1 [[''a'', ''b'']]]
     = [\<lparr>leftIndex = Some 0, rightIndex = Some 0, type = Match\<rparr>,
        \<lparr>leftIndex = Some 1, rightIndex = Some 1, type = Match\<rparr>] \<and>
   compareTableContent (Some (element (tableLine 1 [[''a'', ''b'']])))
     (Some (element (tableLine 1 [[''a'', ''b'']]))) \<and>
   performLineMutualComparison sample_host
       [paragraphLine 0 ''Hello'', tableLine 1 [[''a'', ''b'']]]
       [paragraphLine 0 ''Hello'', tableLine 1 [[''a'', ''b'']]]
     = Inr ([Highlighted (paragraphLine 0 ''Hello'') HighlightNone None,
             Highlighted (tableLine 1 [[''a'', ''b'']]) HighlightNone None],
            [Highlighted (paragraphLine 0 ''Hello'') HighlightNone None,
             Highlighted (tableLine 1 [[''a'', ''b'']]) HighlightNone None],
            \<lparr>additions = 0, deletions = 0, changes = 0\<rparr>)"
  using identity_alignment [of sample_host "[paragraphLine 0 ''Hello'', tableLine 1 [[''a'', ''b'']]]"]
  by (simp add: sample_host_def upt_conv_Cons)

text \<open>
  Claim C2, as stated: a match of a table with a text block is marked modified on both
  sides, counts one addition and one deletion, and never runs the word-level diff,
  whatever the texts. The switch has no arm for two lines of different kinds: such a
  pair falls through to the comparison of the texts. The table with the one cell
  \<^verbatim>\<open>x\<close> matched with the paragraph \<^verbatim>\<open>x\<close> is left unchanged and counts nothing; matched
  with the paragraph \<^verbatim>\<open>y\<close> it is marked modified and carries the markup of the
  word-level diff.
\<close>

theorem mixed_kinds_counterexample:
  \<open>kind (tableLine 0 [[''x'']]) \<noteq> kind (paragraphLine 0 ''x'') \<and>
   performLineMutualComparison sample_host [tableLine 0 [[''x'']]] [paragraphLine 0 ''x'']
     = Inr ([Highlighted (tableLine 0 [[''x'']]) HighlightNone None],
            [Highlighted (paragraphLine 0 ''x'') HighlightNone None],
            \<lparr>additions = 0, deletions = 0, changes = 0\<rparr>) \<and>
   kind (tableLine 0 [[''x'']]) \<noteq> kind (paragraphLine 0 ''y'') \<and>
   performLineMutualComparison sample_host [tableLine 0 [[''x'']]] [paragraphLine 0 ''y'']
     = Inr ([Highlighted (tableLine 0 [[''x'']]) Modified
               (Some ''<span class="git-inline-removed">x</span><span class="git-inline-placeholder" style="background: rgba(34, 197, 94, 0.1); color: #22c55e; font-style: italic; padding: 1px 3px; border-radius: 2px; font-size: 0.9em;">[+y]</span>'')],
            [Highlighted (paragraphLine 0 ''y'') Modified
               (Some ''<span class="git-inline-placeholder" style="background: rgba(239, 68, 68, 0.1); color: #ef4444; font-style: italic; padding: 1px 3px; border-radius: 2px; font-size: 0.9em;">[-x]</span><span class="git-inline-added">y</span>'')],
            \<lparr>additions = 1, deletions = 1, changes = 2\<rparr>)\<close>
  by code_simp

text \<open>
  Claim C2, amended. A match of two lines of different kinds takes the text path. When
  the texts of the two lines are equal after normalization, both sides get the highlight
  \<^verbatim>\<open>none\<close> and the counts stay as they are. Otherwise the word-level diff runs on the
  markup of the two lines; both sides are marked modified, each with its rendered
  markup, and additions and deletions each grow by one.
\<close>

theorem mixed_kinds_take_text_path:
  assumes "i < length leftLines" and "j < length rightLines"
    and "fromElement (leftLines ! i)" and "fromElement (rightLines ! j)"
    and "kind (leftLines ! i) \<noteq> kind (rightLines ! j)"
  shows "classify h leftLines rightLines
           \<lparr>leftIndex = Some i, rightIndex = Some j, type = Match\<rparr> (lp, rp, a, d)
         = (if areTextsEqual (text' (leftLines ! i)) (text' (rightLines ! j))
            then Inr (lp @ [Highlighted (leftLines ! i) HighlightNone None],
                      rp @ [Highlighted (rightLines ! j) HighlightNone None], a, d)
            else andThen (performWordLevelDiff h (html (leftLines ! i)) (html (rightLines ! j)))
                   (\<lambda>(leftHighlighted, rightHighlighted).
                      Inr (lp @ [Highlighted (leftLines ! i) Modified (Some leftHighlighted)],
                           rp @ [Highlighted (rightLines ! j) Modified (Some rightHighlighted)],
                           a + 1, d + 1)))"
proof -
  have "\<not> (isTable (leftLines ! i) \<and> isTable (rightLines ! j))"
    and "\<not> (isImage (leftLines ! i) \<and> isImage (rightLines ! j))"
    using assms(3-5) by (auto simp: kind_def fromElement_def split: if_splits)
  then show ?thesis
    unfolding classify_match [OF assms(1,2)] by (auto simp: classifyMatch_def)
qed

theorem mixed_kinds_take_text_path_witness:
  "fromElement (tableLine 0 [[''x'']]) \<and> fromElement (paragraphLine 0 ''x'') \<and>
   kind (tableLine 0 [[''x'']]) \<noteq> kind (paragraphLine 0 ''x'') \<and>
   classify sample_host [tableLine 0 [[''x'']]] [paragraphLine 0 ''x'']
       \<lparr>leftIndex = Some 0, rightIndex = Some 0, type = Match\<rparr> ([], [], 0, 0)
     = Inr ([Highlighted (tableLine 0 [[''x'']]) HighlightNone None],
            [Highlighted (paragraphLine 0 ''x'') HighlightNone None], 0, 0)"
  using mixed_kinds_take_text_path [of 0 "[tableLine 0 [[''x'']]]" 0 "[paragraphLine 0 ''x'']" sample_host "[]" "[]" 0 0]
  by code_simp

lemma align_step_wellReferenced:
  assumes "align_step dm ls rs i j = Some (d, i', j')"
  shows "wellReferenced ls rs d"
  using assms
  by (auto simp: align_step_def lookahead_step_def item_def Let_def wellReferenced_def
        inRange_def split: if_splits option.splits)

lemma align_loop_wellReferenced:
  assumes "list_all (wellReferenced ls rs) acc"
  shows "list_all (wellReferenced ls rs) (align_loop dm ls rs i j acc)"
  using assms
proof (induction dm ls rs i j acc rule: align_loop.induct)
  case (1 dm ls rs i j acc)
  show ?case
  proof (cases "align_step dm ls rs i j")
    case None
    then show ?thesis
      using align_step_None [OF None] "1.prems" by (simp add: align_loop_stop)
  next
    case (Some r)
    obtain d i' j' where r: "r = (d, i', j')"
      by (cases r)
    have step: "align_step dm ls rs i j = Some (d, i', j')"
      using Some r by simp
    have running: "i < length ls \<or> j < length rs"
      using step by (rule align_step_running)
    have "list_all (wellReferenced ls rs) (acc @ [d])"
      using "1.prems" align_step_wellReferenced [OF step] by simp
    from "1.IH" [OF running step refl refl this] show ?thesis
      unfolding align_loop_unfold [OF step] .
  qed
qed

lemma classifyMatch_stored: "classifyMatch h l r t = classifyMatchWith storedElement h l r t"
  unfolding classifyMatch_def classifyMatchWith_def storedElement_def ..

lemma classify_stored: "classify h ls rs d t = classifyWith storedElement h ls rs d t"
  unfolding classify_def classifyWith_def classifyMatch_stored ..

lemma classifyAll_stored: "classifyAll h ls rs ds t = classifyAllWith storedElement h ls rs ds t"
  by (induction ds arbitrary: t) (simp_all add: classify_stored andThen_def split: sum.splits)

lemma performLineMutualComparison_stored:
  "performLineMutualComparison h ls rs = performLineMutualComparisonWith storedElement h ls rs"
  unfolding performLineMutualComparison_def performLineMutualComparisonWith_def
    classifyAll_stored ..

lemma thrown_classifyMatchWith:
  "thrown (classifyMatchWith f h l r t) = thrown (classifyMatchWith g h l r t')"
  by (cases t; cases t')
     (auto simp: classifyMatchWith_def thrown_def andThen_def split: sum.splits)

lemma thrown_classifyWith:
  "thrown (classifyWith f h ls rs d t) = thrown (classifyWith g h ls rs d t')"
proof (cases t; cases t')
  fix a b c e a' b' c' e'
  assume t: "t = (a, b, c, e)" and t': "t' = (a', b', c', e')"
  show ?thesis
    using thrown_classifyMatchWith [of f h _ _ t g t']
    by (auto simp: classifyWith_def Let_def t t' thrown_def split: alignment_type.splits option.splits)
qed

lemma thrown_classifyAllWith:
  "thrown (classifyAllWith f h ls rs ds t) = thrown (classifyAllWith g h ls rs ds t')"
proof (induction ds arbitrary: t t')
  case Nil
  show ?case by (simp add: thrown_def)
next
  case (Cons d ds)
  show ?case
  proof (cases "classifyWith f h ls rs d t")
    case (Inl e)
    with thrown_classifyWith [of f h ls rs d t g t']
    have "classifyWith g h ls rs d t' = Inl e"
      by (auto simp: thrown_def split: sum.splits)
    with Inl show ?thesis by (simp add: andThen_def)
  next
    case (Inr t1)
    with thrown_classifyWith [of f h ls rs d t g t']
    obtain t1' where "classifyWith g h ls rs d t' = Inr t1'"
      by (auto simp: thrown_def split: sum.splits)
    with Inr Cons.IH [of t1 t1'] show ?thesis by (simp add: andThen_def)
  qed
qed

lemma thrown_performLineMutualComparisonWith:
  "thrown (performLineMutualComparisonWith f h ls rs)
     = thrown (performLineMutualComparisonWith g h ls rs)"
  using thrown_classifyAllWith [of f h ls rs "createOptimalAlignment (diff_main h) ls rs"
      "([], [], 0, 0)" g "([], [], 0, 0)"]
  by (auto simp: performLineMutualComparisonWith_def thrown_def andThen_def split: sum.splits)

lemma escapeHtml_thrown:
  assumes "escapeHtml h s = Inl e"
  shows "createElement h = Inl e"
  using assms by (simp add: escapeHtml_def andThen_def split: sum.splits)

lemma extractPlainText_thrown:
  assumes "extractPlainText h s = Inl e"
  shows "createElement h = Inl e"
  using assms by (simp add: extractPlainText_def andThen_def split: sum.splits if_splits)

lemma highlightDiff_thrown:
  assumes "highlightDiff h sd d = Inl e"
  shows "createElement h = Inl e"
  using assms
  by (auto simp: highlightDiff_def andThen_def Let_def
        split: sum.splits if_splits dest: escapeHtml_thrown)

lemma applyDiffHighlighting_loop_thrown:
  assumes "applyDiffHighlighting_loop h ds sd acc = Inl e"
  shows "createElement h = Inl e"
  using assms
  by (induction ds arbitrary: acc)
     (auto simp: andThen_def split: sum.splits dest: highlightDiff_thrown)

lemma performWordLevelDiff_thrown:
  assumes "performWordLevelDiff h a b = Inl e"
  shows "createElement h = Inl e"
  using assms
  by (auto simp: performWordLevelDiff_def applyDiffHighlighting_def andThen_def Let_def
        split: sum.splits
        dest: extractPlainText_thrown applyDiffHighlighting_loop_thrown)

lemma classifyMatchWith_thrown:
  assumes "classifyMatchWith f h l r t = Inl e"
  shows "createElement h = Inl e"
  using assms
  by (cases t)
     (auto simp: classifyMatchWith_def andThen_def
        split: sum.splits if_splits dest: performWordLevelDiff_thrown)

lemma classifyWith_thrown:
  assumes "wellReferenced ls rs d" and "classifyWith f h ls rs d t = Inl e"
  shows "createElement h = Inl e"
  using assms
  by (cases t)
     (auto simp: classifyWith_def wellReferenced_def inRange_def lineAt_def item_def Let_def
        split: alignment_type.splits option.splits if_splits dest: classifyMatchWith_thrown)

lemma classifyAllWith_thrown:
  assumes "list_all (wellReferenced ls rs) ds" and "classifyAllWith f h ls rs ds t = Inl e"
  shows "createElement h = Inl e"
  using assms
  by (induction ds arbitrary: t)
     (auto simp: andThen_def split: sum.splits dest: classifyWith_thrown)

lemma performLineMutualComparisonWith_thrown:
  assumes "performLineMutualComparisonWith f h ls rs = Inl e"
  shows "createElement h = Inl e"
proof -
  have refs: "list_all (wellReferenced ls rs) (createOptimalAlignment (diff_main h) ls rs)"
    unfolding createOptimalAlignment_def by (rule align_loop_wellReferenced) simp
  from assms have "classifyAllWith f h ls rs (createOptimalAlignment (diff_main h) ls rs)
      ([], [], 0, 0) = Inl e"
    by (auto simp: performLineMutualComparisonWith_def andThen_def split: sum.splits)
  with refs show ?thesis
    by (rule classifyAllWith_thrown)
qed

text \<open>
  Claim C9. \<^verbatim>\<open>compareTableContent\<close> and \<^verbatim>\<open>compareImageContent\<close> return false when
  either argument is \<^verbatim>\<open>null\<close> or missing, and neither throws. So the classification
  does not fail on lines that lack their node. A match of two tables or of two images
  is classified by the comparison alone, whatever the element references are, and where
  a reference is \<^verbatim>\<open>null\<close> both sides are marked modified, with one addition and one
  deletion counted. The classification of two lists throws with any element references
  exactly what it throws with the nodes in place, and it throws only what
  \<^verbatim>\<open>document.createElement\<close> has thrown. With the stored nodes as references the
  functions are the classifier of the source.
\<close>

theorem structural_equality_null_safe:
  "\<not> compareTableContent None y \<and> \<not> compareTableContent x None \<and>
   \<not> compareImageContent None y \<and> \<not> compareImageContent x None \<and>
   (isTable l \<and> isTable r \<longrightarrow>
      classifyMatchWith elementOf h l r (lp, rp, a, d)
        = (if compareTableContent (elementOf l) (elementOf r)
           then Inr (lp @ [Highlighted l HighlightNone None],
                     rp @ [Highlighted r HighlightNone None], a, d)
           else Inr (lp @ [Highlighted l Modified None],
                     rp @ [Highlighted r Modified None], a + 1, d + 1))) \<and>
   (isImage l \<and> isImage r \<and> \<not> (isTable l \<and> isTable r) \<longrightarrow>
      classifyMatchWith elementOf h l r (lp, rp, a, d)
        = (if compareImageContent (elementOf l) (elementOf r)
           then Inr (lp @ [Highlighted l HighlightNone None],
                     rp @ [Highlighted r HighlightNone None], a, d)
           else Inr (lp @ [Highlighted l Modified None],
                     rp @ [Highlighted r Modified None], a + 1, d + 1))) \<and>
   ((isTable l \<and> isTable r \<or> isImage l \<and> isImage r) \<and>
    (elementOf l = None \<or> elementOf r = None) \<longrightarrow>
      classifyMatchWith elementOf h l r (lp, rp, a, d)
        = Inr (lp @ [Highlighted l Modified None],
               rp @ [Highlighted r Modified None], a + 1, d + 1)) \<and>
   thrown (performLineMutualComparisonWith elementOf h leftLines rightLines)
     = thrown (performLineMutualComparison h leftLines rightLines) \<and>
   (performLineMutualComparisonWith elementOf h leftLines rightLines = Inl e \<longrightarrow>
      createElement h = Inl e) \<and>
   classifyMatchWith storedElement h l r (lp, rp, a, d) = classifyMatch h l r (lp, rp, a, d) \<and>
   performLineMutualComparisonWith storedElement h leftLines rightLines
     = performLineMutualComparison h leftLines rightLines"
proof (intro conjI impI)
  show "classifyMatchWith storedElement h l r (lp, rp, a, d) = classifyMatch h l r (lp, rp, a, d)"
    by (simp add: classifyMatch_stored)
  show "performLineMutualComparisonWith storedElement h leftLines rightLines
     = performLineMutualComparison h leftLines rightLines"
    by (simp add: performLineMutualComparison_stored)
  show "thrown (performLineMutualComparisonWith elementOf h leftLines rightLines)
     = thrown (performLineMutualComparison h leftLines rightLines)"
    unfolding performLineMutualComparison_stored
    by (rule thrown_performLineMutualComparisonWith)
  show "createElement h = Inl e"
    if "performLineMutualComparisonWith elementOf h leftLines rightLines = Inl e"
    using that by (rule performLineMutualComparisonWith_thrown)
qed (auto simp: compareTableContent_def compareImageContent_def classifyMatchWith_def
       split: option.splits)

theorem structural_equality_null_safe_witness:
  "isTable (tableLine 0 [[''a'']]) \<and>
   classifyMatchWith withoutElement sample_host (tableLine 0 [[''a'']]) (tableLine 0 [[''a'']])
       ([], [], 0, 0)
     = Inr ([Highlighted (tableLine 0 [[''a'']]) Modified None],
            [Highlighted (tableLine 0 [[''a'']]) Modified None], 1, 1) \<and>
   performLineMutualComparisonWith withoutElement sample_host
       [tableLine 0 [[''a'']]] [tableLine 0 [[''a'']]]
     = Inr ([Highlighted (tableLine 0 [[''a'']]) Modified None],
            [Highlighted (tableLine 0 [[''a'']]) Modified None],
            \<lparr>additions = 1, deletions = 1, changes = 2\<rparr>) \<and>
   performLineMutualComparisonWith withoutElement broken_host
       [paragraphLine 0 ''x''] [paragraphLine 0 ''y''] = Inl HostError \<and>
   createElement broken_host = Inl HostError"
  using structural_equality_null_safe [of "None" "None" "tableLine 0 [[''a'']]"
      "tableLine 0 [[''a'']]" withoutElement sample_host "[]" "[]" 0 0
      "[tableLine 0 [[''a'']]]" "[tableLine 0 [[''a'']]]" HostError]
    structural_equality_null_safe [of "None" "None" "tableLine 0 [[''a'']]"
      "tableLine 0 [[''a'']]" withoutElement broken_host "[]" "[]" 0 0
      "[paragraphLine 0 ''x'']" "[paragraphLine 0 ''y'']" HostError]
  by code_simp

section \<open>Properties of the comparison of two documents\<close>

text \<open>
  Claim C10. \<^verbatim>\<open>compareHtmlDocuments\<close> always resolves: whenever anything is thrown
  inside its \<^verbatim>\<open>try\<close>, in the extraction, the alignment or the classification, the
  promise is resolved with each input as one \<^verbatim>\<open>equal\<close> block holding the input as it
  was given, a summary of zeros and an empty detailed report.
\<close>

theorem compareHtmlDocuments_catch:
  assumes "compareHtmlDocuments_try h pg leftHtml rightHtml = Inl e"
  shows "compareHtmlDocuments h pg leftHtml rightHtml
           = \<lparr>leftDiffs = [(''equal'', leftHtml)],
              rightDiffs = [(''equal'', rightHtml)],
              summary = \<lparr>additions = 0, deletions = 0, changes = 0\<rparr>,
              detailed = \<lparr>lines = [], tables = [], images = []\<rparr>\<rparr>"
  using assms by (simp add: compareHtmlDocuments_def unchangedDocuments_def)

theorem compareHtmlDocuments_catch_witness:
  "compareHtmlDocuments_try broken_host broken_page ''<p>a</p>'' ''<p>b</p>'' = Inl HostError \<and>
   compareHtmlDocuments broken_host broken_page ''<p>a</p>'' ''<p>b</p>''
     = \<lparr>leftDiffs = [(''equal'', ''<p>a</p>'')],
        rightDiffs = [(''equal'', ''<p>b</p>'')],
        summary = \<lparr>additions = 0, deletions = 0, changes = 0\<rparr>,
        detailed = \<lparr>lines = [], tables = [], images = []\<rparr>\<rparr> \<and>
   compareHtmlDocuments_try sample_host broken_page ''<p>a</p>'' ''<p>b</p>'' = Inl HostError \<and>
   compareHtmlDocuments sample_host broken_page ''<p>a</p>'' ''<p>b</p>''
     = \<lparr>leftDiffs = [(''equal'', ''<p>a</p>'')],
        rightDiffs = [(''equal'', ''<p>b</p>'')],
        summary = \<lparr>additions = 0, deletions = 0, changes = 0\<rparr>,
        detailed = \<lparr>lines = [], tables = [], images = []\<rparr>\<rparr>"
  using compareHtmlDocuments_catch [of broken_host broken_page "''<p>a</p>''" "''<p>b</p>''" HostError]
    compareHtmlDocuments_catch [of sample_host broken_page "''<p>a</p>''" "''<p>b</p>''" HostError]
  by code_simp

end
